theory Spec2Isabelle
  imports Complex_Main "HOL-Library.Sublist" "HOL-Library.Multiset" "HOL-Library.Log_Nat"
begin

section \<open>Strings and slices\<close>

text \<open>
  Go strings are byte sequences and so are HOL strings. The helpers below are the library
  calls the orchestrator uses on them: \<^verbatim>\<open>strings.Contains\<close>, \<^verbatim>\<open>strings.HasPrefix\<close>,
  \<^verbatim>\<open>strings.EqualFold\<close>, \<^verbatim>\<open>strconv.Itoa\<close> and the package's own \<^verbatim>\<open>contains\<close> on
  string slices.
\<close>

fun contains :: "string list \<Rightarrow> string \<Rightarrow> bool" where
  "contains [] item = False"
| "contains (s # slice) item = (if s = item then True else contains slice item)"

fun strContains :: "string \<Rightarrow> string \<Rightarrow> bool" where
  "strContains [] substr = (substr = [])"
| "strContains (c # cs) substr = (prefix substr (c # cs) \<or> strContains cs substr)"

definition HasPrefix :: "string \<Rightarrow> string \<Rightarrow> bool" where
  "HasPrefix s p = prefix p s"

definition lowerChar :: "char \<Rightarrow> char" where
  "lowerChar c = (let n = (of_char c :: nat) in if 65 \<le> n \<and> n \<le> 90 then char_of (n + 32) else c)"

text \<open>
  \<^verbatim>\<open>strings.EqualFold\<close> compares two UTF-8 strings under Unicode simple case folding. Among
  ASCII characters only a letter and its other case fold together, so on two ASCII strings
  it is equality after lowering \<^verbatim>\<open>A\<close> to \<^verbatim>\<open>Z\<close>. UTF-8 decoding and the Unicode tables
  are not modelled: when one of the strings has a byte outside ASCII (the Kelvin sign, which
  folds to \<^verbatim>\<open>k\<close>, is such a case) the result is that of the parameter \<open>unicodeFold\<close>.
\<close>

definition isASCII :: "string \<Rightarrow> bool" where
  "isASCII s = list_all (\<lambda>c. (of_char c :: nat) < 128) s"

definition EqualFold :: "(string \<Rightarrow> string \<Rightarrow> bool) \<Rightarrow> string \<Rightarrow> string \<Rightarrow> bool" where
  "EqualFold unicodeFold s t =
     (if isASCII s \<and> isASCII t then map lowerChar s = map lowerChar t else unicodeFold s t)"

function digitsOf :: "nat \<Rightarrow> string" where
  "digitsOf n = (if n < 10 then [''0123456789'' ! n] else digitsOf (n div 10) @ [''0123456789'' ! (n mod 10)])"
  by pat_completeness auto
termination
  by (relation "measure (\<lambda>n. n)") auto

declare digitsOf.simps [simp del]

definition Itoa :: "int \<Rightarrow> string" where
  "Itoa i = (if i < 0 then CHR ''-'' # digitsOf (nat (- i)) else digitsOf (nat i))"

section \<open>Machine numbers\<close>

text \<open>
  A Go \<^verbatim>\<open>int\<close> is a 64-bit two's-complement integer: the model keeps counters as integers
  and writes the wrap-around of an addition out with \<open>wrap64\<close>.
\<close>

definition wrap64 :: "int \<Rightarrow> int" where
  "wrap64 i = (i + 2 ^ 63) mod 2 ^ 64 - 2 ^ 63"

text \<open>
  A \<^verbatim>\<open>float64\<close> is modelled by the rational it denotes. An operation returns the exact
  result rounded to the nearest number with 53 significant bits, a tie going to the even
  one (\<open>roundFloat\<close>). \<open>exponentOf x\<close> is the binary exponent of a positive \<open>x\<close>, read off the
  bit length of \<open>x\<close> scaled by \<open>2 ^ 1074\<close> (the smallest positive \<^verbatim>\<open>float64\<close> is
  \<open>2 ^ -1074\<close>). The numbers rounded here are 64-bit integers, their quotients and a
  product with 100, all far from the overflow threshold and the subnormal range, which are
  not modelled; no division by zero is reached.
\<close>

definition floatScale :: nat where
  "floatScale = 1074"

definition exponentOf :: "rat \<Rightarrow> int" where
  "exponentOf x = bitlen \<lfloor>x * 2 ^ floatScale\<rfloor> - 1 - int floatScale"

definition roundEven :: "rat \<Rightarrow> int" where
  "roundEven y =
     (let f = \<lfloor>y\<rfloor>; r = y - of_int f
      in if r < 1 / 2 then f else if r > 1 / 2 then f + 1 else if even f then f else f + 1)"

definition roundFloat :: "rat \<Rightarrow> rat" where
  "roundFloat x =
     (if x = 0 then 0
      else (let e = exponentOf \<bar>x\<bar>; ulp = 2 powi (e - 52)
            in sgn x * of_int (roundEven (\<bar>x\<bar> / ulp)) * ulp))"

text \<open>The conversion \<^verbatim>\<open>float64(i)\<close>, the quotient and the product of two \<^verbatim>\<open>float64\<close>.\<close>

definition float64 :: "int \<Rightarrow> rat" where
  "float64 i = roundFloat (of_int i)"

definition fdiv :: "rat \<Rightarrow> rat \<Rightarrow> rat" where
  "fdiv x y = roundFloat (x / y)"

definition fmul :: "rat \<Rightarrow> rat \<Rightarrow> rat" where
  "fmul x y = roundFloat (x * y)"

section \<open>The key-value store\<close>

text \<open>
  The store maps string keys to string values. A stored value is represented by what
  \<^verbatim>\<open>encoding/json\<close> makes of it when a reader decodes it into its record type: the empty
  string, text that is not JSON, JSON of the wrong shape, or a decoded record. A backend
  that is down answers every call with an error and changes nothing.
\<close>

datatype 'a stored = Empty | InvalidJson | WrongShape | Decoded 'a

record 'a kvstore =
  kv_data :: "string \<rightharpoonup> 'a stored"
  kv_down :: bool

datatype kverror = KeyNotFound | BackendError

definition GetKv :: "'a kvstore \<Rightarrow> string \<Rightarrow> kverror + 'a stored" where
  "GetKv kv key =
     (if kv_down kv then Inl BackendError
      else case kv_data kv key of None \<Rightarrow> Inl KeyNotFound | Some v \<Rightarrow> Inr v)"

definition Put :: "'a kvstore \<Rightarrow> string \<Rightarrow> 'a stored \<Rightarrow> kverror option \<times> 'a kvstore" where
  "Put kv key v =
     (if kv_down kv then (Some BackendError, kv)
      else (None, kv\<lparr>kv_data := (kv_data kv)(key \<mapsto> v)\<rparr>))"

definition Delete :: "'a kvstore \<Rightarrow> string \<Rightarrow> kverror option \<times> 'a kvstore" where
  "Delete kv key =
     (if kv_down kv then (Some BackendError, kv)
      else (None, kv\<lparr>kv_data := (kv_data kv)(key := None)\<rparr>))"

section \<open>Provisioning history\<close>

record ProvisioningLog =
  SpecId :: string
  ConnectionName :: string
  ProviderName :: string
  RegionName :: string
  FailureCount :: int
  SuccessCount :: int
  FailureTimestamps :: "int list"
  SuccessTimestamps :: "int list"
  FailureMessages :: "string list"
  FailureImages :: "string list"
  SuccessImages :: "string list"
  LastUpdated :: int
  AdditionalInfo :: "string \<rightharpoonup> string"

record ProvisioningEvent =
  ev_SpecId :: string
  ev_CspImageName :: string
  ev_IsSuccess :: bool
  ev_ErrorMessage :: string
  ev_Timestamp :: int
  ev_VmName :: string
  ev_MciId :: string

record TbSpecInfo =
  spec_ConnectionName :: string
  spec_ProviderName :: string
  spec_RegionName :: string
  spec_CspSpecName :: string

type_synonym logstore = "ProvisioningLog kvstore"

subsection \<open>Keys\<close>

text \<open>
  \<^verbatim>\<open>url.QueryEscape\<close>: letters, digits and \<^verbatim>\<open>-_.~\<close> stay, a space becomes \<^verbatim>\<open>+\<close>, every
  other byte becomes \<^verbatim>\<open>%XX\<close> in upper-case hexadecimal.
\<close>

definition unreserved :: "char \<Rightarrow> bool" where
  "unreserved c =
     (let n = (of_char c :: nat)
      in (48 \<le> n \<and> n \<le> 57) \<or> (65 \<le> n \<and> n \<le> 90) \<or> (97 \<le> n \<and> n \<le> 122)
         \<or> c = CHR ''-'' \<or> c = CHR ''_'' \<or> c = CHR ''.'' \<or> c = CHR ''~'')"

definition escapeChar :: "char \<Rightarrow> string" where
  "escapeChar c =
     (if unreserved c then [c]
      else if c = CHR '' '' then ''+''
      else (let n = (of_char c :: nat)
            in [CHR ''%'', ''0123456789ABCDEF'' ! (n div 16), ''0123456789ABCDEF'' ! (n mod 16)]))"

definition QueryEscape :: "string \<Rightarrow> string" where
  "QueryEscape s = concat (map escapeChar s)"

definition generateProvisioningLogKey :: "string \<Rightarrow> string" where
  "generateProvisioningLogKey specId = ''/log/provision/'' @ QueryEscape specId"

subsection \<open>Reading and writing a log\<close>

datatype logerror =
    FailedToGetLog kverror
  | FailedToGetSpec string
  | FailedToSaveLog kverror

text \<open>
  \<^verbatim>\<open>GetProvisioningLog\<close> returns the decoded log, or no log when the key is absent, the
  value is empty, or the value does not decode; in the last case it deletes the entry.
\<close>

definition GetProvisioningLog ::
  "logstore \<Rightarrow> string \<Rightarrow> (logerror + ProvisioningLog option) \<times> logstore" where
  "GetProvisioningLog kv specId =
     (let key = generateProvisioningLogKey specId
      in case GetKv kv key of
           Inl KeyNotFound \<Rightarrow> (Inr None, kv)
         | Inl e \<Rightarrow> (Inl (FailedToGetLog e), kv)
         | Inr Empty \<Rightarrow> (Inr None, kv)
         | Inr InvalidJson \<Rightarrow> (Inr None, snd (Delete kv key))
         | Inr WrongShape \<Rightarrow> (Inr None, snd (Delete kv key))
         | Inr (Decoded provisioningLog) \<Rightarrow> (Inr (Some provisioningLog), kv))"

definition SaveProvisioningLog ::
  "int \<Rightarrow> logstore \<Rightarrow> ProvisioningLog \<Rightarrow> logerror option \<times> logstore" where
  "SaveProvisioningLog now kv provisioningLog =
     (let l = provisioningLog\<lparr>LastUpdated := now\<rparr>;
          key = generateProvisioningLogKey (SpecId l)
      in case Put kv key (Decoded l) of
           (Some e, kv') \<Rightarrow> (Some (FailedToSaveLog e), kv')
         | (None, kv') \<Rightarrow> (None, kv'))"


section \<open>Risk analysis\<close>

record SpecRiskInfo =
  sr_Level :: string
  sr_Message :: string
  FailedImageCount :: int
  SucceededImageCount :: int
  TotalFailures :: int
  TotalSuccesses :: int
  FailureRate :: rat

record ImageRiskInfo =
  ir_Level :: string
  ir_Message :: string
  HasFailedWithSpec :: bool
  HasSucceededWithSpec :: bool
  IsNewCombination :: bool

record OverallRiskInfo =
  or_Level :: string
  or_Message :: string
  PrimaryRiskFactor :: string

record RiskAnalysis =
  SpecRisk :: SpecRiskInfo
  ImageRisk :: ImageRiskInfo
  OverallRisk :: OverallRiskInfo
  Recommendations :: "string list"

text \<open>
  The failure rate is a \<^verbatim>\<open>float64\<close>; the constants 0.8 and 0.5 it is compared with are the
  \<^verbatim>\<open>float64\<close> nearest to them. The parameter \<open>fmt1f\<close> stands for the \<^verbatim>\<open>%.1f\<close> verb of
  \<^verbatim>\<open>fmt.Sprintf\<close>, which only shapes message text.
\<close>

definition analyzeSpecRisk ::
  "(rat \<Rightarrow> string) \<Rightarrow> int \<Rightarrow> int \<Rightarrow> int \<Rightarrow> int \<Rightarrow> rat \<Rightarrow> SpecRiskInfo" where
  "analyzeSpecRisk fmt1f failedImageCount succeededImageCount totalFailures totalSuccesses failureRate =
     (let pct = fmt1f (fmul failureRate 100);
          (level, message) =
            (if failedImageCount \<ge> 10 then
               (''high'', ''Spec-level issue detected: '' @ Itoa failedImageCount
                  @ '' different images have failed with this spec ('' @ pct
                  @ ''% failure rate). This suggests the spec itself may be problematic'')
             else if failedImageCount \<ge> 5 then
               (''medium'', ''Possible spec-level issue: '' @ Itoa failedImageCount
                  @ '' different images have failed with this spec ('' @ pct
                  @ ''% failure rate). Consider checking spec compatibility'')
             else if failedImageCount \<ge> 3 \<and> succeededImageCount = 0 then
               (''medium'', ''Potential spec-level issue: '' @ Itoa failedImageCount
                  @ '' different images have failed with this spec and none have succeeded (''
                  @ pct @ ''% failure rate)'')
             else if failureRate \<ge> roundFloat (8 / 10) then
               (''high'', ''Very high failure rate ('' @ pct
                  @ ''%) for this spec, even with some successful images'')
             else if failureRate \<ge> roundFloat (5 / 10) then
               (''medium'', ''Moderate failure rate ('' @ pct
                  @ ''%) for this spec across different images'')
             else if failureRate > 0 then
               (''low'', ''Low failure rate ('' @ pct
                  @ ''%) for this spec, mostly successful with various images'')
             else
               (''low'', ''No failures recorded for this spec, appears stable''))
      in \<lparr>sr_Level = level, sr_Message = message,
          FailedImageCount = failedImageCount, SucceededImageCount = succeededImageCount,
          TotalFailures = totalFailures, TotalSuccesses = totalSuccesses,
          FailureRate = failureRate\<rparr>)"

definition analyzeImageRisk :: "bool \<Rightarrow> bool \<Rightarrow> bool \<Rightarrow> string \<Rightarrow> ImageRiskInfo" where
  "analyzeImageRisk imageHasFailed imageHasSucceeded isNewCombination cspImageName =
     (let (level, message) =
            (if imageHasFailed then
               (if \<not> imageHasSucceeded then
                  (''high'', ''CRITICAL: This exact spec+image combination ('' @ cspImageName
                     @ '') has failed before and never succeeded'')
                else
                  (''high'', ''HIGH RISK: This exact spec+image combination ('' @ cspImageName
                     @ '') has failed at least once before, despite some successes''))
             else if imageHasSucceeded \<and> \<not> imageHasFailed then
               (''low'', ''SAFE: This exact spec+image combination ('' @ cspImageName
                  @ '') has previously succeeded and never failed'')
             else if isNewCombination then
               (''low'', ''NEW: This exact spec+image combination ('' @ cspImageName
                  @ '') has never been tried before'')
             else
               (''low'', ''No specific image risk identified''))
      in \<lparr>ir_Level = level, ir_Message = message,
          HasFailedWithSpec = imageHasFailed, HasSucceededWithSpec = imageHasSucceeded,
          IsNewCombination = isNewCombination\<rparr>)"

definition getRiskValue :: "string \<Rightarrow> int" where
  "getRiskValue riskLevel =
     (if riskLevel = ''high'' then 3
      else if riskLevel = ''medium'' then 2
      else if riskLevel = ''low'' then 1
      else 0)"

definition determineOverallRisk :: "SpecRiskInfo \<Rightarrow> ImageRiskInfo \<Rightarrow> OverallRiskInfo" where
  "determineOverallRisk specRisk imageRisk =
     (let specRiskValue = getRiskValue (sr_Level specRisk);
          imageRiskValue = getRiskValue (ir_Level imageRisk);
          (level, primaryRiskFactor, message) =
            (if specRiskValue \<ge> imageRiskValue then
               (sr_Level specRisk, ''spec'',
                if specRiskValue > imageRiskValue
                then ''Primary risk is spec-related: '' @ sr_Message specRisk
                else ''Both spec and image have similar risk levels. Spec: '' @ sr_Message specRisk)
             else
               (ir_Level imageRisk, ''image'',
                ''Primary risk is image-related: '' @ ir_Message imageRisk));
          (primaryRiskFactor, message) =
            (if sr_Level specRisk = ''low'' \<and> ir_Level imageRisk = ''low'' then
               (''none'', ''Both spec and image appear safe based on historical data'')
             else if IsNewCombination imageRisk \<and> sr_Level specRisk \<noteq> ''low'' then
               (''combination'',
                ''New image combination with a spec that has shown issues: '' @ sr_Message specRisk)
             else (primaryRiskFactor, message))
      in \<lparr>or_Level = level, or_Message = message, PrimaryRiskFactor = primaryRiskFactor\<rparr>)"

definition generateRecommendations ::
  "SpecRiskInfo \<Rightarrow> ImageRiskInfo \<Rightarrow> OverallRiskInfo \<Rightarrow> string list" where
  "generateRecommendations specRisk imageRisk overallRisk =
     (let factor = PrimaryRiskFactor overallRisk;
          r1 =
            (if factor = ''spec'' then
               (if sr_Level specRisk = ''high'' then
                  [''Consider changing to a different VM specification'',
                   ''Check if this spec is available and properly configured in the target region'']
                  @ (if FailedImageCount specRisk \<ge> 5
                     then [''Multiple images have failed with this spec - likely a spec-level compatibility issue'']
                     else [])
                else if sr_Level specRisk = ''medium'' then
                  [''Monitor deployment closely - this spec has shown some issues'',
                   ''Consider having a backup spec ready'']
                else [])
             else if factor = ''image'' then
               (if ir_Level imageRisk = ''high'' then
                  (if HasFailedWithSpec imageRisk \<and> \<not> HasSucceededWithSpec imageRisk then
                     [''CRITICAL: This exact spec+image combination has failed before and NEVER succeeded'',
                      ''STRONGLY RECOMMEND: Use a different image immediately'',
                      ''Find alternative images with same OS/application requirements'']
                   else if HasFailedWithSpec imageRisk \<and> HasSucceededWithSpec imageRisk then
                     [''HIGH RISK: This exact combination has failed at least once before'',
                      ''CAUTION: Even though it succeeded sometimes, failure history indicates instability'',
                      ''Consider using a more reliable image or test extensively before production'']
                   else [])
                else if ir_Level imageRisk = ''medium'' then
                  [''This image has mixed results with this spec - proceed with caution'']
                else [])
             else if factor = ''combination'' then
               [''This is a new spec+image combination'',
                ''Monitor closely as there's no historical data for this combination'']
               @ (if sr_Level specRisk \<noteq> ''low''
                  then [''Consider that this spec has shown issues with other images'']
                  else [])
             else if factor = ''none'' then
               [''Both spec and image appear safe based on historical data'',
                ''Continue with standard monitoring'']
             else
               [''Monitor deployment and record results for future analysis'']);
          r2 =
            (if HasFailedWithSpec imageRisk
             then [''IMPORTANT: This exact spec+image combination has failure history - high caution advised'']
             else []);
          r3 =
            (if or_Level overallRisk = ''high'' then
               [''HIGH RISK DEPLOYMENT - Consider testing in development environment first'',
                ''Ensure robust rollback plans and monitoring are in place'']
             else if or_Level overallRisk = ''medium'' then
               [''Medium risk - ensure proper monitoring and rollback plans are in place'']
             else [])
      in r1 @ r2 @ r3)"

definition lowRiskAnalysis :: "string \<Rightarrow> string \<Rightarrow> string \<Rightarrow> string \<Rightarrow> RiskAnalysis" where
  "lowRiskAnalysis specMessage imageMessage overallMessage recommendation =
     \<lparr>SpecRisk = \<lparr>sr_Level = ''low'', sr_Message = specMessage,
                    FailedImageCount = 0, SucceededImageCount = 0,
                    TotalFailures = 0, TotalSuccesses = 0, FailureRate = 0\<rparr>,
      ImageRisk = \<lparr>ir_Level = ''low'', ir_Message = imageMessage,
                     HasFailedWithSpec = False, HasSucceededWithSpec = False,
                     IsNewCombination = True\<rparr>,
      OverallRisk = \<lparr>or_Level = ''low'', or_Message = overallMessage,
                       PrimaryRiskFactor = ''none''\<rparr>,
      Recommendations = [recommendation]\<rparr>"

text \<open>The part of \<^verbatim>\<open>AnalyzeProvisioningRiskDetailed\<close> that follows the read of the log.\<close>

definition analyzeLog :: "(rat \<Rightarrow> string) \<Rightarrow> ProvisioningLog \<Rightarrow> string \<Rightarrow> RiskAnalysis" where
  "analyzeLog fmt1f provisioningLog cspImageName =
     (let totalAttempts = wrap64 (FailureCount provisioningLog + SuccessCount provisioningLog)
      in if totalAttempts = 0 then
           lowRiskAnalysis ''No provisioning attempts recorded for this spec''
             ''No attempts with this image on this spec''
             ''No provisioning attempts recorded''
             ''First deployment with this configuration, proceed with monitoring''
         else
           (let failureRate = fdiv (float64 (FailureCount provisioningLog)) (float64 totalAttempts);
                imageHasFailed = contains (FailureImages provisioningLog) cspImageName;
                imageHasSucceeded = contains (SuccessImages provisioningLog) cspImageName;
                isNewCombination = (\<not> imageHasFailed \<and> \<not> imageHasSucceeded);
                failedImageCount = int (length (FailureImages provisioningLog));
                succeededImageCount = int (length (SuccessImages provisioningLog));
                specRisk = analyzeSpecRisk fmt1f failedImageCount succeededImageCount
                             (FailureCount provisioningLog) (SuccessCount provisioningLog) failureRate;
                imageRisk = analyzeImageRisk imageHasFailed imageHasSucceeded isNewCombination cspImageName;
                overallRisk = determineOverallRisk specRisk imageRisk;
                recommendations = generateRecommendations specRisk imageRisk overallRisk
            in \<lparr>SpecRisk = specRisk, ImageRisk = imageRisk, OverallRisk = overallRisk,
                Recommendations = recommendations\<rparr>))"

definition AnalyzeProvisioningRiskDetailed ::
  "(rat \<Rightarrow> string) \<Rightarrow> logstore \<Rightarrow> string \<Rightarrow> string \<Rightarrow> RiskAnalysis \<times> logstore" where
  "AnalyzeProvisioningRiskDetailed fmt1f kv specId cspImageName =
     (case GetProvisioningLog kv specId of
        (Inl err, kv') \<Rightarrow>
          (lowRiskAnalysis ''Unable to analyze spec history, assuming low risk''
             ''Unable to analyze image history, assuming low risk''
             ''Unable to analyze provisioning history, assuming low risk''
             ''Monitor this deployment for any issues'', kv')
      | (Inr None, kv') \<Rightarrow>
          (lowRiskAnalysis ''No previous provisioning history available for this spec''
             ''No previous history for this image with this spec''
             ''No previous provisioning history available''
             ''This is a new spec, monitor deployment closely'', kv')
      | (Inr (Some provisioningLog), kv') \<Rightarrow> (analyzeLog fmt1f provisioningLog cspImageName, kv'))"

definition AnalyzeProvisioningRisk ::
  "(rat \<Rightarrow> string) \<Rightarrow> logstore \<Rightarrow> string \<Rightarrow> string \<Rightarrow> (string \<times> string) \<times> logstore" where
  "AnalyzeProvisioningRisk fmt1f kv specId cspImageName =
     (case AnalyzeProvisioningRiskDetailed fmt1f kv specId cspImageName of
        (riskAnalysis, kv') \<Rightarrow>
          ((or_Level (OverallRisk riskAnalysis), or_Message (OverallRisk riskAnalysis)), kv'))"


section \<open>Recording provisioning events\<close>

text \<open>
  \<^verbatim>\<open>resource.GetSpec\<close> is a lookup in the spec catalog of the system namespace; it is a
  parameter here, returning the spec or the text of its error. \<open>now\<close> is the value of
  \<^verbatim>\<open>time.Now()\<close>.
\<close>

definition newProvisioningLog :: "ProvisioningEvent \<Rightarrow> TbSpecInfo \<Rightarrow> ProvisioningLog" where
  "newProvisioningLog event specInfo =
     \<lparr>SpecId = ev_SpecId event,
      ConnectionName = spec_ConnectionName specInfo,
      ProviderName = spec_ProviderName specInfo,
      RegionName = spec_RegionName specInfo,
      FailureCount = 0, SuccessCount = 0,
      FailureTimestamps = [], SuccessTimestamps = [],
      FailureMessages = [], FailureImages = [], SuccessImages = [],
      LastUpdated = 0, AdditionalInfo = Map.empty\<rparr>"

definition recordSuccess :: "ProvisioningEvent \<Rightarrow> ProvisioningLog \<Rightarrow> ProvisioningLog" where
  "recordSuccess event l =
     l\<lparr>SuccessCount := wrap64 (SuccessCount l + 1),
       SuccessTimestamps := SuccessTimestamps l @ [ev_Timestamp event],
       SuccessImages :=
         (if ev_CspImageName event \<noteq> [] \<and> \<not> contains (SuccessImages l) (ev_CspImageName event)
          then SuccessImages l @ [ev_CspImageName event] else SuccessImages l)\<rparr>"

definition recordFailure :: "ProvisioningEvent \<Rightarrow> ProvisioningLog \<Rightarrow> ProvisioningLog" where
  "recordFailure event l =
     l\<lparr>FailureCount := wrap64 (FailureCount l + 1),
       FailureTimestamps := FailureTimestamps l @ [ev_Timestamp event],
       FailureMessages :=
         (if ev_ErrorMessage event \<noteq> [] then FailureMessages l @ [ev_ErrorMessage event]
          else FailureMessages l),
       FailureImages :=
         (if ev_CspImageName event \<noteq> [] \<and> \<not> contains (FailureImages l) (ev_CspImageName event)
          then FailureImages l @ [ev_CspImageName event] else FailureImages l)\<rparr>"

definition addContext :: "ProvisioningEvent \<Rightarrow> ProvisioningLog \<Rightarrow> ProvisioningLog" where
  "addContext event l =
     (if ev_MciId event \<noteq> []
      then l\<lparr>AdditionalInfo := (AdditionalInfo l)(''lastMciId'' \<mapsto> ev_MciId event)\<rparr>
      else l)"

definition RecordProvisioningEvent ::
  "(string \<Rightarrow> string + TbSpecInfo) \<Rightarrow> int \<Rightarrow> logstore \<Rightarrow> ProvisioningEvent
     \<Rightarrow> logerror option \<times> logstore" where
  "RecordProvisioningEvent GetSpec now kv event =
     (case GetProvisioningLog kv (ev_SpecId event) of
        (Inl err, kv1) \<Rightarrow> (Some err, kv1)
      | (Inr existingLog, kv1) \<Rightarrow>
          (case (case existingLog of
                   None \<Rightarrow>
                     (case GetSpec (ev_SpecId event) of
                        Inl e \<Rightarrow> Inl (FailedToGetSpec e)
                      | Inr specInfo \<Rightarrow> Inr (newProvisioningLog event specInfo))
                 | Some l \<Rightarrow> Inr l) of
             Inl err \<Rightarrow> (Some err, kv1)
           | Inr provisioningLog \<Rightarrow>
               (if ev_IsSuccess event then
                  (if FailureCount provisioningLog > 0
                   then SaveProvisioningLog now kv1 (addContext event (recordSuccess event provisioningLog))
                   else (None, kv1))
                else SaveProvisioningLog now kv1 (addContext event (recordFailure event provisioningLog)))))"

subsection \<open>Events of a finished MCI\<close>

text \<open>
  Modelled from the spec: the status constants are declared outside the given sources; their
  values are the status names of the data model (\<open>Running\<close>, \<open>Failed\<close>, ...).
\<close>

definition StatusRunning :: string where "StatusRunning = ''Running''"
definition StatusFailed :: string where "StatusFailed = ''Failed''"
definition StatusSuspended :: string where "StatusSuspended = ''Suspended''"
definition StatusTerminated :: string where "StatusTerminated = ''Terminated''"
definition StatusCreating :: string where "StatusCreating = ''Creating''"
definition StatusSuspending :: string where "StatusSuspending = ''Suspending''"
definition StatusResuming :: string where "StatusResuming = ''Resuming''"
definition StatusRebooting :: string where "StatusRebooting = ''Rebooting''"
definition StatusTerminating :: string where "StatusTerminating = ''Terminating''"
definition StatusUndefined :: string where "StatusUndefined = ''Undefined''"
definition StatusComplete :: string where "StatusComplete = ''Complete''"

text \<open>The fields of a VM object that the modelled functions read or write.\<close>

record TbVmInfo =
  vm_Id :: string
  vm_Name :: string
  vm_ConnectionName :: string
  vm_CspVmId :: string
  vm_Status :: string
  vm_TargetStatus :: string
  vm_TargetAction :: string
  vm_SystemMessage :: string
  vm_PublicIP :: string
  vm_PrivateIP :: string
  vm_SSHPort :: string
  vm_Location :: string
  vm_MonAgentStatus :: string
  vm_CreatedTime :: string
  vm_SpecId :: string
  vm_ImageId :: string
  vm_CspImageName :: string
  vm_SshKeyId :: string
  vm_VNetId :: string
  vm_SecurityGroupIds :: "string list"
  vm_DataDiskIds :: "string list"

record VmCreationError =
  vce_VmName :: string
  vce_Error :: string
  vce_Phase :: string
  vce_Timestamp :: string

record MciCreationErrors =
  VmObjectCreationErrors :: "VmCreationError list"
  VmCreationErrors :: "VmCreationError list"

record TbMciInfo =
  mci_Id :: string
  mci_Vm :: "TbVmInfo list"
  mci_CreationErrors :: "MciCreationErrors option"

fun firstMatchingError :: "VmCreationError list \<Rightarrow> string \<Rightarrow> string option" where
  "firstMatchingError [] vmId = None"
| "firstMatchingError (vmError # rest) vmId =
     (if vce_VmName vmError = vmId \<or> strContains (vce_VmName vmError) vmId
      then Some (vce_Error vmError) else firstMatchingError rest vmId)"

definition failureMessageOf :: "TbMciInfo \<Rightarrow> TbVmInfo \<Rightarrow> string" where
  "failureMessageOf mciInfo vm =
     (let errorMessage =
            (case mci_CreationErrors mciInfo of
               None \<Rightarrow> []
             | Some creationErrors \<Rightarrow>
                 (let m1 = (case firstMatchingError (VmCreationErrors creationErrors) (vm_Id vm) of
                              Some e \<Rightarrow> e | None \<Rightarrow> [])
                  in case firstMatchingError (VmObjectCreationErrors creationErrors) (vm_Id vm) of
                       Some e \<Rightarrow> e | None \<Rightarrow> m1))
      in if errorMessage = [] then ''VM creation failed with status: '' @ vm_Status vm
         else errorMessage)"

definition provisioningEventOf :: "int \<Rightarrow> TbMciInfo \<Rightarrow> TbVmInfo \<Rightarrow> ProvisioningEvent" where
  "provisioningEventOf now mciInfo vm =
     (let isSuccess = (vm_Status vm = StatusRunning);
          errorMessage = (if \<not> isSuccess then failureMessageOf mciInfo vm else [])
      in \<lparr>ev_SpecId = vm_SpecId vm, ev_CspImageName = vm_CspImageName vm,
          ev_IsSuccess = isSuccess, ev_ErrorMessage = errorMessage, ev_Timestamp = now,
          ev_VmName = vm_Id vm, ev_MciId = mci_Id mciInfo\<rparr>)"

text \<open>The loop over the VMs: an event that fails to record is skipped, the others count.\<close>

fun recordEvents ::
  "(string \<Rightarrow> string + TbSpecInfo) \<Rightarrow> int \<Rightarrow> TbMciInfo \<Rightarrow> TbVmInfo list \<Rightarrow> nat \<times> logstore
     \<Rightarrow> nat \<times> logstore" where
  "recordEvents GetSpec now mciInfo [] (eventCount, kv) = (eventCount, kv)"
| "recordEvents GetSpec now mciInfo (vm # vms) (eventCount, kv) =
     (case RecordProvisioningEvent GetSpec now kv (provisioningEventOf now mciInfo vm) of
        (Some err, kv') \<Rightarrow> recordEvents GetSpec now mciInfo vms (eventCount, kv')
      | (None, kv') \<Rightarrow> recordEvents GetSpec now mciInfo vms (eventCount + 1, kv'))"

definition RecordProvisioningEventsFromMci ::
  "(string \<Rightarrow> string + TbSpecInfo) \<Rightarrow> int \<Rightarrow> logstore \<Rightarrow> TbMciInfo \<Rightarrow> logerror option \<times> logstore" where
  "RecordProvisioningEventsFromMci GetSpec now kv mciInfo =
     (None, snd (recordEvents GetSpec now mciInfo (mci_Vm mciInfo) (0, kv)))"

subsection \<open>Concrete histories\<close>

text \<open>
  A formatting function for concrete evaluations, and the stored history of scenario S5:
  one failure of image \<^verbatim>\<open>ubuntu22.04\<close> on spec \<^verbatim>\<open>gcp+europe-north1+f1-micro\<close>, no success.
\<close>

definition fmtWhole :: "rat \<Rightarrow> string" where
  "fmtWhole r = Itoa \<lfloor>r\<rfloor>"

definition s5_spec :: string where
  "s5_spec = ''gcp+europe-north1+f1-micro''"

definition s5_image :: string where
  "s5_image = ''ubuntu22.04''"

definition s5_log :: ProvisioningLog where
  "s5_log =
     \<lparr>SpecId = s5_spec, ConnectionName = ''gcp-europe-north1'', ProviderName = ''gcp'',
      RegionName = ''europe-north1'', FailureCount = 1, SuccessCount = 0,
      FailureTimestamps = [1], SuccessTimestamps = [], FailureMessages = [''quota exceeded''],
      FailureImages = [s5_image], SuccessImages = [], LastUpdated = 1,
      AdditionalInfo = Map.empty\<rparr>"

definition s5_store :: logstore where
  "s5_store =
     \<lparr>kv_data = [generateProvisioningLogKey s5_spec \<mapsto> Decoded s5_log], kv_down = False\<rparr>"

text \<open>A history with five failed images and no success: every attempt failed.\<close>

definition five_failed_log :: ProvisioningLog where
  "five_failed_log =
     \<lparr>SpecId = ''aws+ap-northeast-2+t2.small'', ConnectionName = ''aws-ap-northeast-2'',
      ProviderName = ''aws'', RegionName = ''ap-northeast-2'', FailureCount = 5, SuccessCount = 0,
      FailureTimestamps = [1, 2, 3, 4, 5], SuccessTimestamps = [], FailureMessages = [],
      FailureImages = [''img-a'', ''img-b'', ''img-c'', ''img-d'', ''img-e''], SuccessImages = [],
      LastUpdated = 5, AdditionalInfo = Map.empty\<rparr>"

text \<open>The failure rate of a log as an exact fraction: failures over attempts.\<close>

definition failureRateOf :: "ProvisioningLog \<Rightarrow> rat" where
  "failureRateOf l = of_int (FailureCount l) / of_int (FailureCount l + SuccessCount l)"

section \<open>Review of a dynamic MCI request\<close>

text \<open>
  The lookups the review makes outside the provisioning log are parameters:
  \<^verbatim>\<open>common.CheckString\<close>, \<^verbatim>\<open>CheckMci\<close>, \<^verbatim>\<open>resource.GetSpec\<close>, \<^verbatim>\<open>resource.LookupSpec\<close>,
  \<^verbatim>\<open>resource.LookupImage\<close> and \<^verbatim>\<open>common.GetConnConfig\<close>, each returning its result or the
  text of its error. The source reviews the VM requests in goroutines; every one of them
  touches the store only through \<open>AnalyzeProvisioningRisk\<close>, whose deletions commute, so
  the model reviews them in request order. The report's resource summary, cost estimate
  and policy recommendations are computed from the request and the lookup results alone
  and are left out.
\<close>

record TbVmDynamicReq =
  dreq_Name :: string
  dreq_SubGroupSize :: string
  dreq_CommonSpec :: string
  dreq_CommonImage :: string
  dreq_ConnectionName :: string
  dreq_RootDiskType :: string
  dreq_RootDiskSize :: string

record TbMciDynamicReq =
  mreq_Name :: string
  mreq_Vm :: "TbVmDynamicReq list"
  mreq_PolicyOnPartialFailure :: string

record ReviewVmDynamicReqInfo =
  rv_VmName :: string
  rv_SubGroupSize :: string
  rv_ConnectionName :: string
  rv_ProviderName :: string
  rv_RegionName :: string
  rv_CanCreate :: bool
  rv_Status :: string
  rv_Message :: string
  rv_Info :: "string list"
  rv_Warnings :: "string list"
  rv_Errors :: "string list"

record ReviewMciDynamicReqInfo =
  rm_MciName :: string
  rm_VmReviews :: "ReviewVmDynamicReqInfo list"
  rm_OverallStatus :: string
  rm_OverallMessage :: string
  rm_CreationViable :: bool
  rm_PolicyOnPartialFailure :: string

record reviewEnv =
  env_CheckString :: "string \<Rightarrow> string option"
  env_CheckMci :: "string \<Rightarrow> string \<Rightarrow> string + bool"
  env_GetSpec :: "string \<Rightarrow> string + TbSpecInfo"
  env_LookupSpec :: "string \<Rightarrow> string \<Rightarrow> string + string"
  env_LookupImage :: "string \<Rightarrow> string \<Rightarrow> string + string"
  env_GetConnConfig :: "string \<Rightarrow> string option"
  env_fmt1f :: "rat \<Rightarrow> string"
  env_mapKeys :: "string list \<Rightarrow> string list"

definition quoted :: "string \<Rightarrow> string" where
  "quoted s = CHR 0x27 # s @ [CHR 0x27]"

definition withRisk ::
  "string \<Rightarrow> string \<Rightarrow> ReviewVmDynamicReqInfo \<times> bool \<times> bool \<Rightarrow> ReviewVmDynamicReqInfo \<times> bool \<times> bool" where
  "withRisk riskLevel riskMessage st =
     (case st of (vmReview, viable, hasVmWarning) \<Rightarrow>
        if riskLevel = ''high'' then
          (vmReview\<lparr>rv_Errors := rv_Errors vmReview @ [''High provisioning failure risk: '' @ riskMessage],
                    rv_CanCreate := False\<rparr>, False, hasVmWarning)
        else if riskLevel = ''medium'' then
          (vmReview\<lparr>rv_Warnings := rv_Warnings vmReview
                       @ [''Moderate provisioning failure risk: '' @ riskMessage]\<rparr>, viable, True)
        else if riskLevel = ''low'' then
          (if riskMessage \<noteq> ''No previous provisioning history available''
              \<and> riskMessage \<noteq> ''No provisioning attempts recorded''
           then (vmReview\<lparr>rv_Info := rv_Info vmReview @ [''Provisioning history: '' @ riskMessage]\<rparr>,
                 viable, hasVmWarning)
           else (vmReview, viable, hasVmWarning))
        else (vmReview, viable, hasVmWarning))"

definition withStatus :: "ReviewVmDynamicReqInfo \<Rightarrow> ReviewVmDynamicReqInfo" where
  "withStatus vmReview =
     (if length (rv_Errors vmReview) > 0 then
        vmReview\<lparr>rv_Status := ''Error'',
                  rv_Message := ''VM has '' @ Itoa (int (length (rv_Errors vmReview)))
                                @ '' error(s) that prevent creation''\<rparr>
      else if length (rv_Warnings vmReview) > 0 then
        vmReview\<lparr>rv_Status := ''Warning'',
                  rv_Message := ''VM can be created but has ''
                                @ Itoa (int (length (rv_Warnings vmReview))) @ '' warning(s)''\<rparr>
      else
        vmReview\<lparr>rv_Status := ''Ready'', rv_Message := ''VM can be created successfully''\<rparr>)"

text \<open>
  The checks of one VM request that come before the risk analysis: name, sub-group size,
  spec, image, connection and root disk. The result is the review so far, the viable and
  warning flags, and the spec when it was found.
\<close>

definition reviewLookups ::
  "reviewEnv \<Rightarrow> TbVmDynamicReq \<Rightarrow> (ReviewVmDynamicReqInfo \<times> bool \<times> bool) \<times> TbSpecInfo option" where
  "reviewLookups env vmRequest =
     (let vmReview0 =
            \<lparr>rv_VmName = dreq_Name vmRequest, rv_SubGroupSize = dreq_SubGroupSize vmRequest,
             rv_ConnectionName = [], rv_ProviderName = [], rv_RegionName = [],
             rv_CanCreate = True, rv_Status = ''Ready'', rv_Message = [],
             rv_Info = [], rv_Warnings = [], rv_Errors = []\<rparr>;
          (vmReview1, warn1) =
            (if dreq_Name vmRequest = []
             then (vmReview0\<lparr>rv_Warnings := rv_Warnings vmReview0
                     @ [''VM SubGroup name not specified, will be auto-generated'']\<rparr>, True)
             else (vmReview0, False));
          (vmReview2, warn2) =
            (if dreq_SubGroupSize vmRequest = []
             then (vmReview1\<lparr>rv_Warnings := rv_Warnings vmReview1
                     @ [''SubGroupSize not specified, defaulting to 1'']\<rparr>, True)
             else (vmReview1, warn1));
          (vmReview3, viable3, specInfoPtr) =
            (case env_GetSpec env (dreq_CommonSpec vmRequest) of
               Inl err \<Rightarrow>
                 (vmReview2\<lparr>rv_Errors := rv_Errors vmReview2
                     @ [''Failed to get spec '' @ quoted (dreq_CommonSpec vmRequest) @ '': '' @ err],
                    rv_CanCreate := False\<rparr>, False, None)
             | Inr specInfo \<Rightarrow>
                 (let r = vmReview2\<lparr>rv_ConnectionName := spec_ConnectionName specInfo,
                                     rv_ProviderName := spec_ProviderName specInfo,
                                     rv_RegionName := spec_RegionName specInfo\<rparr>
                  in case env_LookupSpec env (spec_ConnectionName specInfo) (spec_CspSpecName specInfo) of
                       Inl err \<Rightarrow>
                         (r\<lparr>rv_Errors := rv_Errors r
                             @ [''Spec '' @ quoted (dreq_CommonSpec vmRequest)
                                @ '' not available in CSP: '' @ err],
                            rv_CanCreate := False\<rparr>, False, Some specInfo)
                     | Inr cspSpec \<Rightarrow> (r, True, Some specInfo)));
          (vmReview4, viable4) =
            (case specInfoPtr of
               None \<Rightarrow> (vmReview3, viable3)
             | Some specInfo \<Rightarrow>
                 (case env_LookupImage env (spec_ConnectionName specInfo) (dreq_CommonImage vmRequest) of
                    Inl err \<Rightarrow>
                      (vmReview3\<lparr>rv_Errors := rv_Errors vmReview3
                          @ [''Image '' @ quoted (dreq_CommonImage vmRequest)
                             @ '' not available in CSP: '' @ err],
                         rv_CanCreate := False\<rparr>, False)
                  | Inr cspImage \<Rightarrow> (vmReview3, viable3)));
          (vmReview5, warn5) =
            (if dreq_ConnectionName vmRequest \<noteq> [] then
               (case env_GetConnConfig env (dreq_ConnectionName vmRequest) of
                  Some err \<Rightarrow>
                    (vmReview4\<lparr>rv_Warnings := rv_Warnings vmReview4
                        @ [''Specified connection '' @ quoted (dreq_ConnectionName vmRequest)
                           @ '' not found, will use default from spec'']\<rparr>, True)
                | None \<Rightarrow> (vmReview4\<lparr>rv_ConnectionName := dreq_ConnectionName vmRequest\<rparr>, warn2))
             else (vmReview4, warn2));
          vmReview6 =
            (if dreq_RootDiskType vmRequest \<noteq> [] \<and> dreq_RootDiskType vmRequest \<noteq> ''default''
             then vmReview5\<lparr>rv_Info := rv_Info vmReview5
                    @ [''Root disk type configured: '' @ dreq_RootDiskType vmRequest
                       @ '', be sure it's supported by the provider'']\<rparr>
             else vmReview5);
          vmReview7 =
            (if dreq_RootDiskSize vmRequest \<noteq> [] \<and> dreq_RootDiskSize vmRequest \<noteq> ''default''
             then vmReview6\<lparr>rv_Info := rv_Info vmReview6
                    @ [''Root disk size configured: '' @ dreq_RootDiskSize vmRequest
                       @ '' GB, be sure it meets minimum requirements'']\<rparr>
             else vmReview6)
      in ((vmReview7, viable4, warn5), specInfoPtr))"

text \<open>
  The review of one VM request, as it is sent to the collecting loop: the review, the viable
  and warning flags, and the spec when it was found.
\<close>

definition reviewVm ::
  "reviewEnv \<Rightarrow> logstore \<Rightarrow> TbVmDynamicReq
     \<Rightarrow> (ReviewVmDynamicReqInfo \<times> bool \<times> bool \<times> TbSpecInfo option) \<times> logstore" where
  "reviewVm env kv vmRequest =
     (case reviewLookups env vmRequest of
        ((vmReview7, viable4, warn5), None) \<Rightarrow> ((withStatus vmReview7, viable4, warn5, None), kv)
      | (st, Some specInfo) \<Rightarrow>
          (case AnalyzeProvisioningRisk (env_fmt1f env) kv
                  (dreq_CommonSpec vmRequest) (dreq_CommonImage vmRequest) of
             ((riskLevel, riskMessage), kv') \<Rightarrow>
               (case withRisk riskLevel riskMessage st of
                  (vmReview8, viable8, warn8) \<Rightarrow>
                    ((withStatus vmReview8, viable8, warn8, Some specInfo), kv'))))"

fun reviewVms ::
  "reviewEnv \<Rightarrow> logstore \<Rightarrow> TbVmDynamicReq list
     \<Rightarrow> (ReviewVmDynamicReqInfo \<times> bool \<times> bool \<times> TbSpecInfo option) list \<times> logstore" where
  "reviewVms env kv [] = ([], kv)"
| "reviewVms env kv (vmRequest # rest) =
     (case reviewVm env kv vmRequest of
        (result, kv1) \<Rightarrow>
          (case reviewVms env kv1 rest of (results, kv2) \<Rightarrow> (result # results, kv2)))"

text \<open>
  The overall message names the providers and regions of the specs that were found. The
  code collects them as the keys of two Go maps and prints the key lists with \<^verbatim>\<open>%v\<close>;
  \<open>env_mapKeys\<close> is the order in which the keys put into such a map are iterated (Go leaves
  it unspecified), and \<open>fmtStrings\<close> is \<^verbatim>\<open>%v\<close> of a string slice. Of the review result, the
  name, the VM reviews, the overall status and message, the viable flag and the policy are
  modelled.
\<close>

fun joinWith :: "string \<Rightarrow> string list \<Rightarrow> string" where
  "joinWith sep [] = []"
| "joinWith sep [x] = x"
| "joinWith sep (x # y # rest) = x @ sep @ joinWith sep (y # rest)"

definition fmtStrings :: "string list \<Rightarrow> string" where
  "fmtStrings names = ''['' @ joinWith '' '' names @ '']''"

definition ReviewMciDynamicReq ::
  "reviewEnv \<Rightarrow> logstore \<Rightarrow> string \<Rightarrow> TbMciDynamicReq \<Rightarrow> string
     \<Rightarrow> (string + ReviewMciDynamicReqInfo) \<times> logstore" where
  "ReviewMciDynamicReq env kv nsId req deployOption =
     (let reviewResult =
            \<lparr>rm_MciName = mreq_Name req, rm_VmReviews = [], rm_OverallStatus = [],
             rm_OverallMessage = [], rm_CreationViable = False,
             rm_PolicyOnPartialFailure = mreq_PolicyOnPartialFailure req\<rparr>
      in case env_CheckString env nsId of
           Some err \<Rightarrow> (Inl (''invalid namespace: '' @ err), kv)
         | None \<Rightarrow>
             (case env_CheckMci env nsId (mreq_Name req) of
                Inl err \<Rightarrow> (Inl (''invalid mci name: '' @ err), kv)
              | Inr True \<Rightarrow>
                  (Inr (reviewResult\<lparr>rm_OverallStatus := ''Error'',
                          rm_OverallMessage := ''MCI '' @ quoted (mreq_Name req)
                             @ '' already exists in namespace '' @ quoted nsId,
                          rm_CreationViable := False\<rparr>), kv)
              | Inr False \<Rightarrow>
                  (if length (mreq_Vm req) = 0 then
                     (Inr (reviewResult\<lparr>rm_OverallStatus := ''Error'',
                             rm_OverallMessage := ''No VM requests provided'',
                             rm_CreationViable := False\<rparr>), kv)
                   else
                     (case reviewVms env kv (mreq_Vm req) of
                        (results, kv') \<Rightarrow>
                          (let allViable = list_all (\<lambda>(vmReview, viable, warning, specInfo). viable) results;
                               hasWarnings = list_ex (\<lambda>(vmReview, viable, warning, specInfo). warning) results;
                               specInfos = List.map_filter (\<lambda>(vmReview, viable, warning, specInfo). specInfo)
                                             results;
                               providerNames = env_mapKeys env (map spec_ProviderName specInfos);
                               regionNames = env_mapKeys env (map spec_RegionName specInfos);
                               summary = '' (Providers: '' @ fmtStrings providerNames
                                         @ '', Regions: '' @ fmtStrings regionNames @ '')'';
                               policy = (if mreq_PolicyOnPartialFailure req = [] then ''continue''
                                         else mreq_PolicyOnPartialFailure req);
                               status = (if \<not> allViable then ''Error''
                                         else if hasWarnings then ''Warning'' else ''Ready'')
                           in (Inr (reviewResult\<lparr>rm_VmReviews := map fst results,
                                      rm_OverallStatus := status,
                                      rm_OverallMessage :=
                                        (if \<not> allViable then
                                           ''MCI cannot be created due to critical errors in VM configurations''
                                           @ summary
                                         else if hasWarnings then
                                           ''MCI can be created but has some configuration warnings''
                                           @ summary
                                         else ''All VMs can be created successfully'' @ summary),
                                      rm_CreationViable := allViable,
                                      rm_PolicyOnPartialFailure := policy\<rparr>), kv'))))))"

section \<open>Kubernetes version recommendation\<close>

record K8sClusterVersionDetailAvailable =
  ver_Name :: string
  ver_Id :: string

text \<open>
  Modelled from the spec: \<^verbatim>\<open>common.FilterDigitsAndDots\<close> is declared outside the given
  sources; the spec calls its result the digits-and-dots-filtered form, so it keeps the
  digits and dots of its argument. \<^verbatim>\<open>common.CompareVersions\<close> and the constant
  \<^verbatim>\<open>model.StrEmpty\<close> are outside the sources too and are parameters of the model, as is
  the result of \<^verbatim>\<open>common.GetAvailableK8sVersion\<close> for the provider and region.
\<close>

definition isDigitOrDot :: "char \<Rightarrow> bool" where
  "isDigitOrDot c = (let n = (of_char c :: nat) in (48 \<le> n \<and> n \<le> 57) \<or> c = CHR ''.'')"

definition FilterDigitsAndDots :: "string \<Rightarrow> string" where
  "FilterDigitsAndDots input = filter isDigitOrDot input"

fun Join :: "string list \<Rightarrow> string \<Rightarrow> string" where
  "Join [] sep = []"
| "Join [s] sep = s"
| "Join (s # t # rest) sep = s @ sep @ Join (t # rest) sep"

text \<open>The two loops over the table: without and with a requested version.\<close>

fun recommendLatest ::
  "(string \<Rightarrow> string \<Rightarrow> int) \<Rightarrow> K8sClusterVersionDetailAvailable list \<Rightarrow> string \<times> string list
     \<Rightarrow> string \<times> string list" where
  "recommendLatest CompareVersions [] (recVersion, versionIdList) = (recVersion, versionIdList)"
| "recommendLatest CompareVersions (verDetail # rest) (recVersion, versionIdList) =
     recommendLatest CompareVersions rest
       (if CompareVersions (FilterDigitsAndDots recVersion) (FilterDigitsAndDots (ver_Id verDetail)) < 0
        then ver_Id verDetail else recVersion,
        versionIdList @ [ver_Id verDetail])"

fun recommendRequested ::
  "(string \<Rightarrow> string \<Rightarrow> bool) \<Rightarrow> string \<Rightarrow> K8sClusterVersionDetailAvailable list
     \<Rightarrow> string \<times> string list \<Rightarrow> string \<times> string list" where
  "recommendRequested unicodeFold reqVersion [] (recVersion, versionIdList) = (recVersion, versionIdList)"
| "recommendRequested unicodeFold reqVersion (verDetail # rest) (recVersion, versionIdList) =
     (if EqualFold unicodeFold reqVersion (ver_Id verDetail)
      then (ver_Id verDetail, versionIdList @ [ver_Id verDetail])
      else if HasPrefix (FilterDigitsAndDots (ver_Id verDetail)) (FilterDigitsAndDots reqVersion)
      then (FilterDigitsAndDots (ver_Id verDetail), versionIdList @ [ver_Id verDetail])
      else recommendRequested unicodeFold reqVersion rest (recVersion, versionIdList @ [ver_Id verDetail]))"

definition availableVersionsError :: "string \<Rightarrow> string \<Rightarrow> string list \<Rightarrow> string" where
  "availableVersionsError providerName regionName versionIdList =
     ''Available K8sCluster Version(k8sclusterinfo.yaml) for Provider/Region('' @ providerName
       @ ''/'' @ regionName @ ''): '' @ Join versionIdList '', ''"

definition getK8sRecommendVersion ::
  "(string \<Rightarrow> string \<Rightarrow> bool) \<Rightarrow> (string \<Rightarrow> string \<Rightarrow> int) \<Rightarrow> string
     \<Rightarrow> string + K8sClusterVersionDetailAvailable list
     \<Rightarrow> string \<Rightarrow> string \<Rightarrow> string \<Rightarrow> string + string" where
  "getK8sRecommendVersion unicodeFold CompareVersions StrEmpty available providerName regionName reqVersion =
     (case available of
        Inl err \<Rightarrow> Inl ''No available K8sCluster version.''
      | Inr availableVersion \<Rightarrow>
          (let (recVersion, versionIdList) =
                 (if reqVersion = []
                  then recommendLatest CompareVersions availableVersion (StrEmpty, [])
                  else recommendRequested unicodeFold reqVersion availableVersion (StrEmpty, []))
           in if EqualFold unicodeFold recVersion StrEmpty
              then Inl (availableVersionsError providerName regionName versionIdList)
              else Inr recVersion))"

text \<open>
  A concrete comparison (bytewise lexicographic), a concrete folding for strings outside
  ASCII (equal strings only), and the table of the capability file
  \<^verbatim>\<open>assets/k8sclusterinfo.yaml\<close> for Alibaba Cloud, region \<^verbatim>\<open>common\<close>.
\<close>

fun lexCompare :: "string \<Rightarrow> string \<Rightarrow> int" where
  "lexCompare [] [] = 0"
| "lexCompare [] (y # ys) = - 1"
| "lexCompare (x # xs) [] = 1"
| "lexCompare (x # xs) (y # ys) =
     (if (of_char x :: nat) < of_char y then - 1
      else if (of_char y :: nat) < of_char x then 1
      else lexCompare xs ys)"

definition sameBytes :: "string \<Rightarrow> string \<Rightarrow> bool" where
  "sameBytes s t = (s = t)"

definition alibabaVersions :: "K8sClusterVersionDetailAvailable list" where
  "alibabaVersions =
     [\<lparr>ver_Name = ''1.31'', ver_Id = ''1.31.1-aliyun.1''\<rparr>,
      \<lparr>ver_Name = ''1.30'', ver_Id = ''1.30.7-aliyun.1''\<rparr>,
      \<lparr>ver_Name = ''1.28'', ver_Id = ''1.28.15-aliyun.1''\<rparr>]"

section \<open>MCIS objects in the key-value store\<close>

text \<open>
  Modelled from the spec: the action constants are declared outside the given sources;
  their values are the action names of the lifecycle description.
\<close>

definition ActionCreate :: string where "ActionCreate = ''Create''"
definition ActionTerminate :: string where "ActionTerminate = ''Terminate''"
definition ActionResume :: string where "ActionResume = ''Resume''"
definition ActionReboot :: string where "ActionReboot = ''Reboot''"
definition ActionRefine :: string where "ActionRefine = ''Refine''"
definition ActionComplete :: string where "ActionComplete = ''Complete''"

record StatusCountInfo =
  CountTotal :: int
  CountFailed :: int
  CountSuspended :: int
  CountRunning :: int
  CountTerminated :: int
  CountCreating :: int
  CountSuspending :: int
  CountResuming :: int
  CountRebooting :: int
  CountTerminating :: int
  CountUndefined :: int

record TbVmStatusInfo =
  vs_Id :: string
  vs_Name :: string
  vs_CspVmId :: string
  vs_Status :: string
  vs_TargetStatus :: string
  vs_TargetAction :: string
  vs_NativeStatus :: string
  vs_MonAgentStatus :: string
  vs_SystemMessage :: string
  vs_CreatedTime :: string
  vs_PublicIp :: string
  vs_PrivateIp :: string
  vs_SSHPort :: string
  vs_Location :: string


text \<open>
  The MCIS object as it is stored. \<open>mi_Vm\<close> is its VM list as decoding the stored value into
  a \<^verbatim>\<open>McisStatusInfo\<close> reads it; \<^verbatim>\<open>UpdateMcisInfo\<close> stores the object without a VM list.
\<close>

record TbMcisInfo =
  mi_Id :: string
  mi_Name :: string
  mi_Status :: string
  mi_StatusCount :: StatusCountInfo
  mi_TargetStatus :: string
  mi_TargetAction :: string
  mi_InstallMonAgent :: string
  mi_Label :: string
  mi_SystemLabel :: string
  mi_Vm :: "TbVmStatusInfo list"

definition zeroStatusCount :: StatusCountInfo where
  "zeroStatusCount =
     \<lparr>CountTotal = 0, CountFailed = 0, CountSuspended = 0, CountRunning = 0, CountTerminated = 0,
      CountCreating = 0, CountSuspending = 0, CountResuming = 0, CountRebooting = 0,
      CountTerminating = 0, CountUndefined = 0\<rparr>"

definition zeroVmStatus :: TbVmStatusInfo where
  "zeroVmStatus =
     \<lparr>vs_Id = [], vs_Name = [], vs_CspVmId = [], vs_Status = [], vs_TargetStatus = [],
      vs_TargetAction = [], vs_NativeStatus = [], vs_MonAgentStatus = [], vs_SystemMessage = [],
      vs_CreatedTime = [], vs_PublicIp = [], vs_PrivateIp = [], vs_SSHPort = [], vs_Location = []\<rparr>"



text \<open>
  The store of this package is an ordered list of keys and values, so that keys can be
  listed by prefix. A value is the JSON of an MCIS object, of a VM object, or of something
  else (a sub-group, a policy, a resource); decoding a value as an object of another kind
  is treated as a decoding failure. A missing key reads as the empty \<^verbatim>\<open>KeyValue\<close>.
\<close>

datatype mcisobj = McisObj TbMcisInfo | VmObj TbVmInfo | OtherObj string

type_synonym objstore = "(string \<times> mcisobj) list"

definition kvGet :: "objstore \<Rightarrow> string \<Rightarrow> mcisobj option" where
  "kvGet kv key = map_of kv key"

fun kvPut :: "objstore \<Rightarrow> string \<Rightarrow> mcisobj \<Rightarrow> objstore" where
  "kvPut [] key v = [(key, v)]"
| "kvPut ((k, x) # kv) key v = (if k = key then (k, v) # kv else (k, x) # kvPut kv key v)"




text \<open>
  Modelled from the spec: \<^verbatim>\<open>common.GenMcisKey\<close> and \<^verbatim>\<open>common.GenMcisSubGroupKey\<close> are
  declared outside the given sources. The keys follow the key layout of the spec, with the
  path segment \<^verbatim>\<open>mcis\<close> that the listing functions of this package look for.
\<close>

definition GenMcisKey :: "string \<Rightarrow> string \<Rightarrow> string \<Rightarrow> string" where
  "GenMcisKey nsId mcisId vmId =
     (if vmId \<noteq> [] then ''/ns/'' @ nsId @ ''/mcis/'' @ mcisId @ ''/vm/'' @ vmId
      else if mcisId \<noteq> [] then ''/ns/'' @ nsId @ ''/mcis/'' @ mcisId
      else if nsId \<noteq> [] then ''/ns/'' @ nsId
      else [])"


text \<open>
  The world outside the orchestrator: the store, the state of the cloud behind the
  CSP-abstraction service, and the trace of the control actions and waits made so far.
\<close>

datatype effect = ActionCalled string | Slept string nat

record 'c world =
  w_kv :: objstore
  w_csp :: 'c
  w_trace :: "effect list"

text \<open>
  The calls that leave the given sources are parameters: the name check, the two
  CSP-abstraction reads (VM status, by attempt number, and VM details), \<^verbatim>\<open>TrimIP\<close>,
  \<^verbatim>\<open>CheckMcis\<close>, \<^verbatim>\<open>HandleMcisAction\<close>, the policy calls, \<^verbatim>\<open>mcir.UpdateAssociatedObjectList\<close>,
  \<^verbatim>\<open>DelAllNLB\<close> and \<^verbatim>\<open>common.ToLower\<close>. Those that act take the store and the cloud and
  return them changed. \<open>e_unicodeFold\<close> is the case folding of \<^verbatim>\<open>strings.EqualFold\<close> outside
  ASCII.

  \<open>e_gather\<close> stands for the unsynchronised appends of \<^verbatim>\<open>GetMcisStatus\<close>: the goroutines
  that fetch the VM statuses append to one slice without a lock, so an append can be lost
  and the order is that of the scheduler. Given the slice as it was decoded from the store
  and the statuses that the goroutines append, taken in the order of the VM list,
  \<open>e_gather\<close> is the slice after all of them have finished.
\<close>

record 'c mcisEnv =
  e_CheckString :: "string \<Rightarrow> string option"
  e_vmstatus :: "'c \<Rightarrow> string \<Rightarrow> string \<Rightarrow> nat \<Rightarrow> string + string"
  e_vm :: "'c \<Rightarrow> string \<Rightarrow> string \<Rightarrow> string + (string \<times> string \<times> string)"
  e_TrimIP :: "string \<Rightarrow> string"
  e_CheckMcis :: "objstore \<Rightarrow> string \<Rightarrow> string \<Rightarrow> bool"
  e_HandleMcisAction ::
    "string \<Rightarrow> string \<Rightarrow> string \<Rightarrow> bool \<Rightarrow> objstore \<times> 'c \<Rightarrow> string option \<times> objstore \<times> 'c"
  e_CheckMcisPolicy :: "objstore \<Rightarrow> string \<Rightarrow> string \<Rightarrow> bool"
  e_DelMcisPolicy :: "string \<Rightarrow> string \<Rightarrow> objstore \<Rightarrow> string option \<times> objstore"
  e_UpdateAssociatedObjectList ::
    "string \<Rightarrow> string \<Rightarrow> string \<Rightarrow> string \<Rightarrow> string \<Rightarrow> objstore \<Rightarrow> string option \<times> objstore"
  e_DelAllNLB ::
    "string \<Rightarrow> string \<Rightarrow> string \<Rightarrow> string \<Rightarrow> objstore \<times> 'c \<Rightarrow> (string + string list) \<times> objstore \<times> 'c"
  e_ToLower :: "string \<Rightarrow> string"
  e_unicodeFold :: "string \<Rightarrow> string \<Rightarrow> bool"
  e_gather :: "TbVmStatusInfo list \<Rightarrow> TbVmStatusInfo list \<Rightarrow> TbVmStatusInfo list"

subsection \<open>Listing and reading objects\<close>




definition GetVmObject :: "objstore \<Rightarrow> string \<Rightarrow> string \<Rightarrow> string \<Rightarrow> string + TbVmInfo" where
  "GetVmObject kv nsId mcisId vmId =
     (let key = GenMcisKey nsId mcisId vmId
      in case kvGet kv key of
           None \<Rightarrow> Inl (''failed to get GetVmObject (ID: '' @ key @ '')'')
         | Some (VmObj vmTmp) \<Rightarrow> Inr vmTmp
         | Some other \<Rightarrow>
             Inl (''failed to get GetVmObject (ID: '' @ key @ ''), message: failed to unmarshal''))"

definition UpdateVmInfo :: "objstore \<Rightarrow> string \<Rightarrow> string \<Rightarrow> TbVmInfo \<Rightarrow> objstore" where
  "UpdateVmInfo kv nsId mcisId vmInfoData =
     (let key = GenMcisKey nsId mcisId (vm_Id vmInfoData)
      in case kvGet kv key of
           None \<Rightarrow> kv
         | Some v \<Rightarrow> if v = VmObj vmInfoData then kv else kvPut kv key (VmObj vmInfoData))"



subsection \<open>Reconciling the status of one VM\<close>

definition GetVmCurrentPublicIp ::
  "'c mcisEnv \<Rightarrow> 'c world \<Rightarrow> string \<Rightarrow> string \<Rightarrow> string \<Rightarrow> string + (string \<times> string \<times> string)" where
  "GetVmCurrentPublicIp env w nsId mcisId vmId =
     (let key = GenMcisKey nsId mcisId vmId
      in case kvGet (w_kv w) key of
           None \<Rightarrow> Inl (''Not found: '' @ key @ '' keyValue is nil'')
         | Some (VmObj temp) \<Rightarrow>
             (let cspVmId = vm_CspVmId temp
              in if cspVmId = [] then Inl (''cspVmId is empty (VmId: '' @ vmId @ '')'')
                 else case e_vm env (w_csp w) (vm_ConnectionName temp) cspVmId of
                        Inl err \<Rightarrow> Inl err
                      | Inr (publicIP, privateIP, sshAccessPoint) \<Rightarrow>
                          Inr (publicIP, privateIP, e_TrimIP env sshAccessPoint))
         | Some other \<Rightarrow> Inl ''failed to unmarshal'')"

text \<open>
  The read of \<^verbatim>\<open>/vmstatus\<close>, tried twice: an error ends it with status \<open>Undefined\<close>, a
  non-empty status ends it, an empty status is followed by a wait of five seconds.
\<close>

definition pollVmStatus ::
  "'c mcisEnv \<Rightarrow> 'c world \<Rightarrow> TbVmStatusInfo \<Rightarrow> string \<Rightarrow> string
     \<Rightarrow> string \<times> TbVmStatusInfo \<times> 'c world" where
  "pollVmStatus env w errorInfo connectionName cspVmId =
     (let errorInfo1 = errorInfo\<lparr>vs_Status := StatusFailed\<rparr>
      in case e_vmstatus env (w_csp w) connectionName cspVmId 0 of
           Inl err \<Rightarrow> (StatusUndefined, errorInfo1\<lparr>vs_SystemMessage := err\<rparr>, w)
         | Inr status0 \<Rightarrow>
             if status0 \<noteq> [] then (status0, errorInfo1, w)
             else
               (let w1 = w\<lparr>w_trace := w_trace w @ [Slept ''FetchVmStatus'' 5]\<rparr>
                in case e_vmstatus env (w_csp w1) connectionName cspVmId 1 of
                     Inl err \<Rightarrow> (StatusUndefined, errorInfo1\<lparr>vs_SystemMessage := err\<rparr>, w1)
                   | Inr status1 \<Rightarrow>
                       if status1 \<noteq> [] then (status1, errorInfo1, w1)
                       else (status1, errorInfo1,
                             w1\<lparr>w_trace := w_trace w1 @ [Slept ''FetchVmStatus'' 5]\<rparr>)))"

definition validStatuses :: "string list" where
  "validStatuses =
     [StatusCreating, StatusRunning, StatusSuspending, StatusSuspended, StatusResuming,
      StatusRebooting, StatusTerminating, StatusTerminated]"

text \<open>The correction of the status by the target action, one \<^verbatim>\<open>if\<close> after the other.\<close>

definition correctStatus :: "string \<Rightarrow> string \<Rightarrow> string \<Rightarrow> string" where
  "correctStatus targetAction storedStatus status0 =
     (let s1 = (if targetAction = ActionCreate
                then (let a = (if status0 = StatusUndefined then StatusCreating else status0)
                      in if storedStatus = StatusFailed then StatusFailed else a)
                else status0);
          s2 = (if targetAction = ActionTerminate
                then (let a = (if s1 = StatusUndefined then StatusTerminated else s1)
                      in if a = StatusSuspending then StatusTerminating else a)
                else s1);
          s3 = (if targetAction = ActionResume
                then (let a = (if s2 = StatusUndefined then StatusResuming else s2)
                      in if a = StatusCreating then StatusResuming else a)
                else s2);
          s4 = (if targetAction = ActionReboot
                then (let a = (if s3 = StatusUndefined then StatusRebooting else s3)
                      in if a = StatusSuspending \<or> a = StatusSuspended \<or> a = StatusCreating
                            \<or> a = StatusResuming
                         then StatusRebooting else a)
                else s3)
      in s4)"

text \<open>
  The end of \<^verbatim>\<open>FetchVmStatus\<close>: the status info takes the IP and port of the VM object,
  the VM object takes status, target and message of the status info, and is written back
  when the VM has a CSP id.
\<close>

definition applyStatus ::
  "'c world \<Rightarrow> string \<Rightarrow> string \<Rightarrow> string \<Rightarrow> TbVmInfo \<Rightarrow> TbVmStatusInfo
     \<Rightarrow> (TbVmStatusInfo \<times> string option) \<times> 'c world" where
  "applyStatus w nsId mcisId cspVmId temp vmStatusTmp =
     (let vmStatusTmp1 = vmStatusTmp\<lparr>vs_PublicIp := vm_PublicIP temp, vs_SSHPort := vm_SSHPort temp\<rparr>;
          temp1 = temp\<lparr>vm_Status := vs_Status vmStatusTmp1,
                     vm_TargetAction := vs_TargetAction vmStatusTmp1,
                     vm_TargetStatus := vs_TargetStatus vmStatusTmp1,
                     vm_SystemMessage := vs_SystemMessage vmStatusTmp1\<rparr>
      in ((vmStatusTmp1, None),
          if cspVmId \<noteq> [] then w\<lparr>w_kv := UpdateVmInfo (w_kv w) nsId mcisId temp1\<rparr> else w))"

text \<open>
  The part of \<^verbatim>\<open>FetchVmStatus\<close> after the second read of the VM object: the status is
  corrected by the target action; when it has reached the target status the operation is
  closed, with a fresh read of IP and port unless the target is \<open>Terminated\<close>.
\<close>

definition reconcileStatus ::
  "'c mcisEnv \<Rightarrow> 'c world \<Rightarrow> string \<Rightarrow> string \<Rightarrow> string \<Rightarrow> TbVmStatusInfo \<Rightarrow> TbVmInfo
     \<Rightarrow> string \<Rightarrow> string \<Rightarrow> (TbVmStatusInfo \<times> string option) \<times> 'c world" where
  "reconcileStatus env w nsId mcisId cspVmId errorInfo temp nativeStatus status0 =
     (let vmStatusTmp =
            \<lparr>vs_Id = vm_Id temp, vs_Name = vm_Name temp, vs_CspVmId = vm_CspVmId temp,
             vs_Status = [], vs_TargetStatus = vm_TargetStatus temp,
             vs_TargetAction = vm_TargetAction temp, vs_NativeStatus = nativeStatus,
             vs_MonAgentStatus = vm_MonAgentStatus temp,
             vs_SystemMessage = vm_SystemMessage temp,
             vs_CreatedTime = vm_CreatedTime temp, vs_PublicIp = [],
             vs_PrivateIp = vm_PrivateIP temp, vs_SSHPort = [],
             vs_Location = vm_Location temp\<rparr>;
          status1 = correctStatus (vs_TargetAction vmStatusTmp) (vm_Status temp) status0;
          status = (if vs_Status vmStatusTmp = StatusTerminated then StatusTerminated else status1);
          vmStatusTmp1 = vmStatusTmp\<lparr>vs_Status := status\<rparr>
      in if vs_TargetStatus vmStatusTmp1 = vs_Status vmStatusTmp1 then
           (if vs_TargetStatus vmStatusTmp1 \<noteq> StatusTerminated then
              (case GetVmCurrentPublicIp env w nsId mcisId (vm_Id temp) of
                 Inl err \<Rightarrow> ((errorInfo\<lparr>vs_SystemMessage := err\<rparr>, Some err), w)
               | Inr (publicIp, privateIp, sshPort) \<Rightarrow>
                   applyStatus w nsId mcisId cspVmId
                     (temp\<lparr>vm_PublicIP := publicIp, vm_SSHPort := sshPort\<rparr>)
                     (vmStatusTmp1\<lparr>vs_SystemMessage :=
                          vs_TargetStatus vmStatusTmp1 @ ''=='' @ vs_Status vmStatusTmp1,
                        vs_TargetStatus := StatusComplete,
                        vs_TargetAction := ActionComplete\<rparr>))
            else
              applyStatus w nsId mcisId cspVmId temp
                (vmStatusTmp1\<lparr>vs_TargetStatus := StatusTerminated,
                   vs_TargetAction := ActionTerminate,
                   vs_Status := StatusTerminated,
                   vs_SystemMessage := ''terminated VM. No action is acceptable except deletion''\<rparr>))
         else applyStatus w nsId mcisId cspVmId temp vmStatusTmp1)"

definition FetchVmStatus ::
  "'c mcisEnv \<Rightarrow> 'c world \<Rightarrow> string \<Rightarrow> string \<Rightarrow> string
     \<Rightarrow> (TbVmStatusInfo \<times> string option) \<times> 'c world" where
  "FetchVmStatus env w nsId mcisId vmId =
     (case GetVmObject (w_kv w) nsId mcisId vmId of
        Inl err \<Rightarrow> ((zeroVmStatus, Some err), w)
      | Inr temp \<Rightarrow>
          (let errorInfo =
                 \<lparr>vs_Id = vm_Id temp, vs_Name = vm_Name temp, vs_CspVmId = vm_CspVmId temp,
                  vs_Status = [], vs_TargetStatus = vm_TargetStatus temp,
                  vs_TargetAction = vm_TargetAction temp, vs_NativeStatus = StatusUndefined,
                  vs_MonAgentStatus = vm_MonAgentStatus temp,
                  vs_SystemMessage = ''Error in FetchVmStatus'',
                  vs_CreatedTime = vm_CreatedTime temp, vs_PublicIp = vm_PublicIP temp,
                  vs_PrivateIp = vm_PrivateIP temp, vs_SSHPort = vm_SSHPort temp,
                  vs_Location = vm_Location temp\<rparr>;
               cspVmId = vm_CspVmId temp
           in if (vm_TargetAction temp \<noteq> ActionCreate \<and> vm_TargetAction temp \<noteq> ActionTerminate)
                 \<and> cspVmId = []
              then ((errorInfo, Some (''cspVmId is empty (VmId: '' @ vmId @ '')'')), w)
              else
                (case (if vm_Status temp \<noteq> StatusTerminated \<and> cspVmId \<noteq> []
                       then pollVmStatus env w errorInfo (vm_ConnectionName temp) cspVmId
                       else (StatusUndefined, errorInfo, w)) of
                   (nativeStatus, errorInfo1, w1) \<Rightarrow>
                     (let status0 = (if contains validStatuses nativeStatus then nativeStatus
                                     else StatusUndefined)
                      in case GetVmObject (w_kv w1) nsId mcisId vmId of
                           Inl err \<Rightarrow> ((errorInfo1, Some err), w1)
                         | Inr temp2 \<Rightarrow>
                             reconcileStatus env w1 nsId mcisId cspVmId errorInfo1 temp2
                               nativeStatus status0))))"


subsection \<open>The status of an MCIS\<close>

definition statusFlagStr :: "string list" where
  "statusFlagStr =
     [StatusFailed, StatusSuspended, StatusRunning, StatusTerminated, StatusCreating,
      StatusSuspending, StatusResuming, StatusRebooting, StatusTerminating, StatusUndefined]"

definition statusFlagIndex :: "string \<Rightarrow> nat" where
  "statusFlagIndex status =
     (if status = StatusFailed then 0
      else if status = StatusSuspended then 1
      else if status = StatusRunning then 2
      else if status = StatusTerminated then 3
      else if status = StatusCreating then 4
      else if status = StatusSuspending then 5
      else if status = StatusResuming then 6
      else if status = StatusRebooting then 7
      else if status = StatusTerminating then 8
      else 9)"

definition countStatus :: "string list \<Rightarrow> int list" where
  "countStatus statuses =
     foldl (\<lambda>statusFlag status.
              statusFlag[statusFlagIndex status := statusFlag ! statusFlagIndex status + 1])
       [0, 0, 0, 0, 0, 0, 0, 0, 0, 0] statuses"

fun maxFlag :: "int list \<Rightarrow> nat \<Rightarrow> int \<times> nat \<Rightarrow> int \<times> nat" where
  "maxFlag [] i (tmpMax, tmpMaxIndex) = (tmpMax, tmpMaxIndex)"
| "maxFlag (v # rest) i (tmpMax, tmpMaxIndex) =
     maxFlag rest (i + 1) (if v > tmpMax then (v, i) else (tmpMax, tmpMaxIndex))"

definition proportionStr :: "int \<Rightarrow> int \<Rightarrow> int \<Rightarrow> string" where
  "proportionStr n runningStatus numVm =
     '':'' @ Itoa n @ '' (R:'' @ Itoa runningStatus @ ''/'' @ Itoa numVm @ '')''"

definition mcisStatusOf :: "string list \<Rightarrow> string" where
  "mcisStatusOf statuses =
     (let statusFlag = countStatus statuses;
          (tmpMax, tmpMaxIndex) = maxFlag statusFlag 0 (0, 0);
          numVm = int (length statuses);
          runningStatus = statusFlag ! 2;
          status1 =
            (if tmpMax = numVm
             then statusFlagStr ! tmpMaxIndex @ proportionStr tmpMax runningStatus numVm
             else if tmpMax < numVm
             then ''Partial-'' @ statusFlagStr ! tmpMaxIndex @ proportionStr tmpMax runningStatus numVm
             else statusFlagStr ! 9 @ proportionStr tmpMax runningStatus numVm)
      in if statusFlag ! 0 > 0
         then (if statusFlag ! 0 = numVm
               then statusFlagStr ! 0 @ proportionStr (statusFlag ! 0) runningStatus numVm
               else ''Partial-'' @ statusFlagStr ! 0 @ proportionStr (statusFlag ! 0) runningStatus numVm)
         else status1)"








subsection \<open>Deleting an MCIS\<close>














subsection \<open>Notions used to state the status derivation\<close>

text \<open>\<open>classCount statuses i\<close> is the number of statuses that the status switch counts at index \<open>i\<close>.\<close>

definition classCount :: "string list \<Rightarrow> nat \<Rightarrow> int" where
  "classCount statuses i = int (length (filter (\<lambda>s. statusFlagIndex s = i) statuses))"








subsection \<open>Notions used to state the recording properties\<close>

text \<open>
  \<open>baseLog\<close> is the log an event is applied to: the decoded log under the spec's key, or
  else a fresh log when the spec is in the catalog. \<open>undecodable\<close> holds of a stored value
  that is not JSON or does not decode; \<open>afterRead\<close> is the store once such a value has been
  dropped by the read.
\<close>

definition baseLog ::
  "(string \<Rightarrow> string + TbSpecInfo) \<Rightarrow> logstore \<Rightarrow> ProvisioningEvent \<Rightarrow> ProvisioningLog option" where
  "baseLog GetSpec kv event =
     (case kv_data kv (generateProvisioningLogKey (ev_SpecId event)) of
        Some (Decoded l) \<Rightarrow> Some l
      | _ \<Rightarrow> (case GetSpec (ev_SpecId event) of
                Inl e \<Rightarrow> None
              | Inr specInfo \<Rightarrow> Some (newProvisioningLog event specInfo)))"

definition undecodable :: "'a stored option \<Rightarrow> bool" where
  "undecodable v = (v = Some InvalidJson \<or> v = Some WrongShape)"

definition afterRead :: "logstore \<Rightarrow> string \<Rightarrow> logstore" where
  "afterRead kv key =
     (if undecodable (kv_data kv key) then kv\<lparr>kv_data := (kv_data kv)(key := None)\<rparr> else kv)"

text \<open>
  \<open>requestedLogKeys\<close> are the log keys of the specs a request names. \<open>onlyDropped keys kv kv'\<close>
  says that \<open>kv'\<close> is \<open>kv\<close> except that undecodable values under some of the \<open>keys\<close> are gone.
\<close>

definition requestedLogKeys :: "TbMciDynamicReq \<Rightarrow> string set" where
  "requestedLogKeys req = set (map (\<lambda>vm. generateProvisioningLogKey (dreq_CommonSpec vm)) (mreq_Vm req))"

definition onlyDropped :: "string set \<Rightarrow> logstore \<Rightarrow> logstore \<Rightarrow> bool" where
  "onlyDropped keys kv kv' =
     (kv_down kv' = kv_down kv
      \<and> (\<forall>k. kv_data kv' k = kv_data kv k
               \<or> (kv_data kv' k = None \<and> undecodable (kv_data kv k) \<and> k \<in> keys)))"

text \<open>An entry of the creation errors matches a VM when its name is, or contains, the VM's id.\<close>

definition matchesVm :: "VmCreationError \<Rightarrow> TbVmInfo \<Rightarrow> bool" where
  "matchesVm vmError vm = (vce_VmName vmError = vm_Id vm \<or> strContains (vce_VmName vmError) (vm_Id vm))"

text \<open>
  The creation-error text for a VM: the error of the first matching entry among the
  VM-object creation errors, else of the first matching entry among the VM creation errors,
  else the empty text.
\<close>

definition matchingErrorText :: "TbMciInfo \<Rightarrow> TbVmInfo \<Rightarrow> string" where
  "matchingErrorText mciInfo vm =
     (case mci_CreationErrors mciInfo of
        None \<Rightarrow> []
      | Some creationErrors \<Rightarrow>
          (case find (\<lambda>vmError. matchesVm vmError vm) (VmObjectCreationErrors creationErrors) of
             Some vmError \<Rightarrow> vce_Error vmError
           | None \<Rightarrow>
               (case find (\<lambda>vmError. matchesVm vmError vm) (VmCreationErrors creationErrors) of
                  Some vmError \<Rightarrow> vce_Error vmError
                | None \<Rightarrow> [])))"

text \<open>
  What recording an event amounts to, in the words of the specification. \<open>enteredLog\<close> is
  the log with the event entered: the counter of its kind one higher (in 64-bit
  arithmetic), its timestamp appended, its image appended unless empty or already listed,
  for a failure its message appended unless empty, the MCI noted as the last one, and the
  time of the update. \<open>storeAfterEvent\<close> is the store after the event: nothing changes when
  the store is down; an undecodable value under the spec's key is dropped; when there is a
  log to apply the event to, a failure is always entered and a success only if the log
  counts a failure, and the log is put under the key of its own spec id.
\<close>

definition enteredLog :: "int \<Rightarrow> ProvisioningEvent \<Rightarrow> ProvisioningLog \<Rightarrow> ProvisioningLog" where
  "enteredLog now event b =
     (let image = ev_CspImageName event;
          info = (if ev_MciId event = [] then AdditionalInfo b
                  else (AdditionalInfo b)(''lastMciId'' \<mapsto> ev_MciId event))
      in if ev_IsSuccess event then
           b\<lparr>SuccessCount := wrap64 (SuccessCount b + 1),
             SuccessTimestamps := SuccessTimestamps b @ [ev_Timestamp event],
             SuccessImages := (if image = [] \<or> image \<in> set (SuccessImages b) then SuccessImages b
                               else SuccessImages b @ [image]),
             AdditionalInfo := info, LastUpdated := now\<rparr>
         else
           b\<lparr>FailureCount := wrap64 (FailureCount b + 1),
             FailureTimestamps := FailureTimestamps b @ [ev_Timestamp event],
             FailureMessages := (if ev_ErrorMessage event = [] then FailureMessages b
                                 else FailureMessages b @ [ev_ErrorMessage event]),
             FailureImages := (if image = [] \<or> image \<in> set (FailureImages b) then FailureImages b
                               else FailureImages b @ [image]),
             AdditionalInfo := info, LastUpdated := now\<rparr>)"

definition storeAfterEvent ::
  "(string \<Rightarrow> string + TbSpecInfo) \<Rightarrow> int \<Rightarrow> logstore \<Rightarrow> ProvisioningEvent \<Rightarrow> logstore" where
  "storeAfterEvent GetSpec now kv event =
     (if kv_down kv then kv
      else case baseLog GetSpec kv event of
             None \<Rightarrow> afterRead kv (generateProvisioningLogKey (ev_SpecId event))
           | Some b \<Rightarrow>
               if ev_IsSuccess event \<and> FailureCount b \<le> 0
               then afterRead kv (generateProvisioningLogKey (ev_SpecId event))
               else kv\<lparr>kv_data := (kv_data kv)(generateProvisioningLogKey (SpecId b)
                                        \<mapsto> Decoded (enteredLog now event b))\<rparr>)"

subsection \<open>Concrete events and stores\<close>

definition s5_failure_event :: ProvisioningEvent where
  "s5_failure_event =
     \<lparr>ev_SpecId = s5_spec, ev_CspImageName = ''debian12'', ev_IsSuccess = False,
      ev_ErrorMessage = ''capacity'', ev_Timestamp = 7, ev_VmName = ''g1-1'', ev_MciId = ''m1''\<rparr>"

definition s5_success_event :: ProvisioningEvent where
  "s5_success_event =
     \<lparr>ev_SpecId = s5_spec, ev_CspImageName = s5_image, ev_IsSuccess = True,
      ev_ErrorMessage = [], ev_Timestamp = 8, ev_VmName = ''g1-2'', ev_MciId = ''m1''\<rparr>"

definition noCatalog :: "string \<Rightarrow> string + TbSpecInfo" where
  "noCatalog specId = Inl ''spec not found''"

definition gcpCatalog :: "string \<Rightarrow> string + TbSpecInfo" where
  "gcpCatalog specId =
     (if specId = s5_spec
      then Inr \<lparr>spec_ConnectionName = ''gcp-europe-north1'', spec_ProviderName = ''gcp'',
                spec_RegionName = ''europe-north1'', spec_CspSpecName = ''f1-micro''\<rparr>
      else Inl ''spec not found'')"

definition empty_logstore :: logstore where
  "empty_logstore = \<lparr>kv_data = Map.empty, kv_down = False\<rparr>"

definition corrupted_store :: logstore where
  "corrupted_store =
     \<lparr>kv_data = [generateProvisioningLogKey s5_spec \<mapsto> InvalidJson], kv_down = False\<rparr>"

text \<open>
  An environment in which every lookup succeeds and the MCI name is free, and a request for
  one VM with the S5 spec and image.
\<close>

definition openEnv :: reviewEnv where
  "openEnv =
     \<lparr>env_CheckString = (\<lambda>s. None), env_CheckMci = (\<lambda>ns name. Inr False),
      env_GetSpec = gcpCatalog, env_LookupSpec = (\<lambda>conn name. Inr name),
      env_LookupImage = (\<lambda>conn name. Inr name), env_GetConnConfig = (\<lambda>conn. None),
      env_fmt1f = fmtWhole, env_mapKeys = remdups\<rparr>"

definition s5_request :: TbMciDynamicReq where
  "s5_request =
     \<lparr>mreq_Name = ''m1'',
      mreq_Vm = [\<lparr>dreq_Name = ''g1'', dreq_SubGroupSize = ''1'', dreq_CommonSpec = s5_spec,
                  dreq_CommonImage = s5_image, dreq_ConnectionName = [],
                  dreq_RootDiskType = [], dreq_RootDiskSize = []\<rparr>],
      mreq_PolicyOnPartialFailure = ''continue''\<rparr>"

subsection \<open>Notions used to state the reconciliation property\<close>

text \<open>
  The first half of \<open>FetchVmStatus\<close>: the status information prepared from the stored VM
  object and the native status polled from the cloud (the poll is skipped for a VM stored as
  Terminated or without a CSP id), and the status that the correction rules make of it.
\<close>

definition polled :: "'c mcisEnv \<Rightarrow> 'c world \<Rightarrow> TbVmInfo \<Rightarrow> string \<times> TbVmStatusInfo \<times> 'c world" where
  "polled env w temp =
     (let errorInfo =
            \<lparr>vs_Id = vm_Id temp, vs_Name = vm_Name temp, vs_CspVmId = vm_CspVmId temp,
             vs_Status = [], vs_TargetStatus = vm_TargetStatus temp,
             vs_TargetAction = vm_TargetAction temp, vs_NativeStatus = StatusUndefined,
             vs_MonAgentStatus = vm_MonAgentStatus temp,
             vs_SystemMessage = ''Error in FetchVmStatus'',
             vs_CreatedTime = vm_CreatedTime temp, vs_PublicIp = vm_PublicIP temp,
             vs_PrivateIp = vm_PrivateIP temp, vs_SSHPort = vm_SSHPort temp,
             vs_Location = vm_Location temp\<rparr>
      in if vm_Status temp \<noteq> StatusTerminated \<and> vm_CspVmId temp \<noteq> []
         then pollVmStatus env w errorInfo (vm_ConnectionName temp) (vm_CspVmId temp)
         else (StatusUndefined, errorInfo, w))"

definition reconciledStatus :: "'c mcisEnv \<Rightarrow> 'c world \<Rightarrow> TbVmInfo \<Rightarrow> string" where
  "reconciledStatus env w temp =
     (let nativeStatus = fst (polled env w temp)
      in correctStatus (vm_TargetAction temp) (vm_Status temp)
           (if contains validStatuses nativeStatus then nativeStatus else StatusUndefined))"


subsection \<open>A concrete environment\<close>

text \<open>
  The cloud is an association list from CSP VM ids to native statuses. The MCIS has no policy,
  no load balancer and no associated objects.

  Modelled from the spec: \<open>HandleMcisAction\<close> is outside the sources. The specification
  describes \<open>refine\<close> as deleting the VMs whose stored status is Failed or Undefined and
  \<open>terminate\<close> as moving the VMs to Terminating with the target Terminated; the instance below
  does exactly that.
\<close>

type_synonym cloud = "(string \<times> string) list"

definition refineStore :: "string \<Rightarrow> string \<Rightarrow> objstore \<Rightarrow> objstore" where
  "refineStore nsId mcisId kv =
     filter (\<lambda>(k, v). \<not> (HasPrefix k (GenMcisKey nsId mcisId [] @ ''/vm/'')
                          \<and> (case v of
                                VmObj vm \<Rightarrow> vm_Status vm = StatusFailed \<or> vm_Status vm = StatusUndefined
                              | _ \<Rightarrow> False))) kv"

definition terminateStore :: "string \<Rightarrow> string \<Rightarrow> objstore \<Rightarrow> objstore" where
  "terminateStore nsId mcisId kv =
     map (\<lambda>(k, v). (k, case v of
                          VmObj vm \<Rightarrow>
                            if HasPrefix k (GenMcisKey nsId mcisId [] @ ''/vm/'')
                            then VmObj (vm\<lparr>vm_TargetAction := ActionTerminate,
                                           vm_TargetStatus := StatusTerminated\<rparr>)
                            else v
                        | _ \<Rightarrow> v)) kv"

definition demoHandleMcisAction ::
  "string \<Rightarrow> string \<Rightarrow> string \<Rightarrow> bool \<Rightarrow> objstore \<times> cloud \<Rightarrow> string option \<times> objstore \<times> cloud" where
  "demoHandleMcisAction nsId mcisId action force st =
     (case st of (kv, csp) \<Rightarrow>
        if action = ActionRefine then (None, refineStore nsId mcisId kv, csp)
        else if action = ActionTerminate
        then (None, terminateStore nsId mcisId kv, map (\<lambda>(cspVmId, s). (cspVmId, StatusTerminating)) csp)
        else (Some ''unsupported action'', kv, csp))"

definition demoEnv :: "cloud mcisEnv" where
  "demoEnv =
     \<lparr>e_CheckString = (\<lambda>s. if s = [] then Some ''The provided name is empty.'' else None),
      e_vmstatus = (\<lambda>csp conn cspVmId attempt.
                      case map_of csp cspVmId of None \<Rightarrow> Inl ''not found'' | Some st \<Rightarrow> Inr st),
      e_vm = (\<lambda>csp conn cspVmId. Inr (''3.38.1.10'', ''192.168.0.4'', ''3.38.1.10:22'')),
      e_TrimIP = (\<lambda>sshAccessPoint. drop (Suc (length (takeWhile (\<lambda>c. c \<noteq> CHR '':'') sshAccessPoint)))
                                        sshAccessPoint),
      e_CheckMcis = (\<lambda>kv nsId mcisId. kvGet kv (GenMcisKey nsId mcisId []) \<noteq> None),
      e_HandleMcisAction = demoHandleMcisAction,
      e_CheckMcisPolicy = (\<lambda>kv nsId mcisId. False),
      e_DelMcisPolicy = (\<lambda>nsId mcisId kv. (None, kv)),
      e_UpdateAssociatedObjectList = (\<lambda>nsId kind resourceId cmd key kv. (None, kv)),
      e_DelAllNLB = (\<lambda>nsId mcisId subGroupId force st. (Inr [], st)),
      e_ToLower = map lowerChar, e_unicodeFold = sameBytes,
      e_gather = (\<lambda>decoded appended. decoded @ appended)\<rparr>"

definition demoVm :: "string \<Rightarrow> string \<Rightarrow> string \<Rightarrow> string \<Rightarrow> string \<Rightarrow> TbVmInfo" where
  "demoVm vmId cspVmId status targetStatus targetAction =
     \<lparr>vm_Id = vmId, vm_Name = vmId, vm_ConnectionName = ''aws-ap-northeast-2'',
      vm_CspVmId = cspVmId, vm_Status = status, vm_TargetStatus = targetStatus,
      vm_TargetAction = targetAction, vm_SystemMessage = [], vm_PublicIP = ''3.38.1.9'',
      vm_PrivateIP = ''192.168.0.4'', vm_SSHPort = ''22'', vm_Location = ''ap-northeast-2'',
      vm_MonAgentStatus = [], vm_CreatedTime = [], vm_SpecId = ''aws+ap-northeast-2+t2.small'',
      vm_ImageId = ''ubuntu22.04'', vm_CspImageName = ''ubuntu22.04'',
      vm_SshKeyId = ''demo-shared-aws-ap-northeast-2'', vm_VNetId = ''demo-shared-aws-ap-northeast-2'',
      vm_SecurityGroupIds = [''demo-shared-aws-ap-northeast-2''], vm_DataDiskIds = []\<rparr>"

definition demoMcis :: TbMcisInfo where
  "demoMcis =
     \<lparr>mi_Id = ''m1'', mi_Name = ''m1'', mi_Status = [], mi_StatusCount = zeroStatusCount,
      mi_TargetStatus = [], mi_TargetAction = [], mi_InstallMonAgent = ''no'', mi_Label = [],
      mi_SystemLabel = [], mi_Vm = []\<rparr>"

definition creatingWorld :: "cloud world" where
  "creatingWorld =
     \<lparr>w_kv = [(''/ns/demo/mcis/m1'', McisObj demoMcis),
              (''/ns/demo/mcis/m1/vm/v1'',
               VmObj (demoVm ''v1'' ''aws-v1'' ''Creating'' ''Running'' ''Create''))],
      w_csp = [(''aws-v1'', ''Running'')], w_trace = []\<rparr>"

definition terminatedWorld :: "cloud world" where
  "terminatedWorld =
     \<lparr>w_kv = [(''/ns/demo/mcis/m1'', McisObj demoMcis),
              (''/ns/demo/mcis/m1/vm/v1'',
               VmObj (demoVm ''v1'' ''aws-v1'' ''Terminated'' ''Terminated'' ''Terminate''))],
      w_csp = [(''aws-v1'', ''Terminated'')], w_trace = []\<rparr>"



section \<open>Verified properties: machine numbers\<close>

lemma wrap64_small: "- (2 ^ 63) \<le> i \<Longrightarrow> i < 2 ^ 63 \<Longrightarrow> wrap64 i = i"
  by (simp add: wrap64_def)

lemma exponentOf_bounds:
  assumes "2 powi (- int floatScale) \<le> x"
  shows "2 powi (exponentOf x) \<le> x" and "x < 2 powi (exponentOf x + 1)"
proof -
  define N where "N = floatScale"
  define y where "y = x * 2 ^ N"
  define n where "n = \<lfloor>y\<rfloor>"
  have inv: "(2::rat) powi (- int N) * 2 ^ N = 1"
    by (simp add: power_int_minus)
  have xy: "x = y * 2 powi (- int N)"
    unfolding y_def using inv by (simp add: mult.assoc mult.commute [of "2 ^ N"])
  have y1: "1 \<le> y"
  proof -
    have "2 powi (- int N) * 2 ^ N \<le> x * (2 ^ N :: rat)"
      using assms unfolding N_def by (intro mult_right_mono) auto
    then show ?thesis unfolding y_def inv .
  qed
  then have n1: "1 \<le> n" by (simp add: n_def)
  then have n0: "0 < n" by simp
  define k where "k = nat (bitlen n - 1)"
  have bl: "bitlen n \<ge> 1" using n0 by (auto simp: bitlen_alt_def)
  from bitlen_bounds [OF n0] have b: "2 ^ k \<le> n" "n < 2 ^ nat (bitlen n)" by (simp_all add: k_def)
  have kk: "nat (bitlen n) = Suc k" using bl by (simp add: k_def)
  have lo: "(2::rat) ^ k \<le> y"
  proof -
    have "(of_int (2 ^ k) :: rat) \<le> of_int n" using b(1) by (simp only: of_int_le_iff)
    also have "\<dots> \<le> y" by (simp add: n_def)
    finally show ?thesis by simp
  qed
  have hi: "y < (2::rat) ^ Suc k"
  proof -
    have "n + 1 \<le> 2 ^ Suc k" using b(2) kk by simp
    then have "(of_int (n + 1) :: rat) \<le> of_int (2 ^ Suc k)" by (simp only: of_int_le_iff)
    moreover have "y < of_int (n + 1)" using floor_correct [of y] by (simp add: n_def)
    ultimately show ?thesis by simp
  qed
  have e: "exponentOf x = int k - int N"
    unfolding exponentOf_def N_def [symmetric] y_def [symmetric] n_def [symmetric]
    using bl by (simp add: k_def)
  have p: "(2::rat) powi (int j - int N) = 2 ^ j * 2 powi (- int N)" for j
    by (simp add: power_int_diff power_int_minus field_simps)
  have p1: "(2::rat) powi (int k - int N) = 2 ^ k * 2 powi (- int N)" by (rule p)
  have p2: "(2::rat) powi (int k - int N + 1) = 2 ^ Suc k * 2 powi (- int N)"
  proof -
    have "int k - int N + 1 = int (Suc k) - int N" by simp
    then show ?thesis by (simp only: p)
  qed
  have pos: "(0::rat) < 2 powi (- int N)" by simp
  have "2 ^ k * 2 powi (- int N) \<le> y * 2 powi (- int N)"
    using lo pos by (intro mult_right_mono) auto
  then show "2 powi (exponentOf x) \<le> x"
    unfolding e p1 using xy by simp
  have "y * 2 powi (- int N) < 2 ^ Suc k * 2 powi (- int N)"
    using hi pos by (intro mult_strict_right_mono) auto
  then show "x < 2 powi (exponentOf x + 1)"
    unfolding e p2 using xy by simp
qed

lemma powi_less_cancel: "(2::rat) powi a < 2 powi b \<Longrightarrow> a < b"
  by (rule ccontr) (simp add: not_less power_int_increasing not_le [symmetric])

lemma exponentOf_unique:
  assumes lo: "2 powi e \<le> x" and hi: "x < 2 powi (e + 1)" and sc: "- int floatScale \<le> e"
  shows "exponentOf x = e"
proof -
  have "(2::rat) powi (- int floatScale) \<le> 2 powi e"
    using sc by (intro power_int_increasing) auto
  with lo have small: "2 powi (- int floatScale) \<le> x" by simp
  note b = exponentOf_bounds [OF small]
  have "(2::rat) powi e < 2 powi (exponentOf x + 1)" using lo b(2) by simp
  then have 1: "e < exponentOf x + 1" by (rule powi_less_cancel)
  have "(2::rat) powi (exponentOf x) < 2 powi (e + 1)" using b(1) hi by simp
  then have 2: "exponentOf x < e + 1" by (rule powi_less_cancel)
  from 1 2 show ?thesis by simp
qed

lemma roundEven_ge: "of_int n \<le> y \<Longrightarrow> n \<le> roundEven y"
proof -
  assume "of_int n \<le> y"
  then have "n \<le> \<lfloor>y\<rfloor>" by (simp add: le_floor_iff)
  then show ?thesis by (simp add: roundEven_def Let_def)
qed

lemma roundEven_le: "y \<le> of_int n \<Longrightarrow> roundEven y \<le> n"
proof -
  assume a: "y \<le> of_int n"
  then have f: "\<lfloor>y\<rfloor> \<le> n" by (simp add: floor_le_iff)
  show ?thesis
  proof (cases "\<lfloor>y\<rfloor> = n")
    case True
    with a have "y = of_int n" using of_int_floor_le [of y] by simp
    then show ?thesis by (simp add: roundEven_def Let_def)
  next
    case False
    with f have "\<lfloor>y\<rfloor> + 1 \<le> n" by simp
    then show ?thesis by (simp add: roundEven_def Let_def)
  qed
qed

lemma roundEven_int [simp]: "roundEven (of_int n) = n"
  by (simp add: roundEven_def)

lemma roundEven_half_up:
  assumes "of_int M - 1 / 2 \<le> y" and "even M"
  shows "M \<le> roundEven y"
proof (cases "of_int M \<le> y")
  case True
  then show ?thesis by (rule roundEven_ge)
next
  case False
  then have "y < of_int M" by simp
  moreover from assms(1) have "of_int (M - 1) \<le> y" by simp
  ultimately have fl: "\<lfloor>y\<rfloor> = M - 1" by (simp add: floor_unique)
  have r: "y - of_int (M - 1) \<ge> 1 / 2" using assms(1) by simp
  have odd: "odd (M - 1)" using assms(2) by simp
  show ?thesis
    unfolding roundEven_def Let_def fl using r odd by auto
qed

lemma roundEven_half_down:
  assumes "y < of_int M - 1 / 2"
  shows "roundEven y < M"
proof -
  have "y < of_int M" using assms by simp
  then have f: "\<lfloor>y\<rfloor> < M" by (simp add: floor_less_iff)
  show ?thesis
  proof (cases "\<lfloor>y\<rfloor> = M - 1")
    case True
    then have "y - of_int \<lfloor>y\<rfloor> < 1 / 2" using assms by simp
    then show ?thesis using True by (simp add: roundEven_def Let_def)
  next
    case False
    with f have "\<lfloor>y\<rfloor> + 1 < M" by simp
    then show ?thesis by (simp add: roundEven_def Let_def)
  qed
qed

lemma roundFloat_pos:
  assumes "2 powi e \<le> x" and "x < 2 powi (e + 1)" and "- int floatScale \<le> e"
  shows "roundFloat x = of_int (roundEven (x / 2 powi (e - 52))) * 2 powi (e - 52)"
proof -
  have "(0::rat) < 2 powi e" by simp
  from this assms(1) have pos: "0 < x" by (rule less_le_trans)
  have "exponentOf x = e" by (rule exponentOf_unique [OF assms])
  with pos show ?thesis by (simp add: roundFloat_def Let_def)
qed

lemma roundFloat_bounds:
  assumes "2 powi e \<le> x" and "x < 2 powi (e + 1)" and "- int floatScale \<le> e"
  shows "2 powi e \<le> roundFloat x" and "roundFloat x \<le> 2 powi (e + 1)"
proof -
  let ?u = "(2::rat) powi (e - 52)"
  have u: "0 < ?u" by simp
  have lo: "(2::rat) powi e = 2 ^ 52 * ?u"
    by (simp add: power_int_diff)
  have hi: "(2::rat) powi (e + 1) = 2 ^ 53 * ?u"
    by (simp add: power_int_diff power_int_add)
  have "of_int (2 ^ 52) \<le> x / ?u"
    using assms(1) u unfolding lo by (simp add: pos_le_divide_eq)
  then have a: "2 ^ 52 \<le> roundEven (x / ?u)" by (rule roundEven_ge)
  have "x / ?u \<le> of_int (2 ^ 53)"
    using assms(2) u unfolding hi by (simp add: pos_divide_le_eq)
  then have b: "roundEven (x / ?u) \<le> 2 ^ 53" by (rule roundEven_le)
  have a': "(2 ^ 52 :: rat) \<le> of_int (roundEven (x / ?u))"
    using a by (metis of_int_le_iff of_int_numeral of_int_power)
  have b': "of_int (roundEven (x / ?u)) \<le> (2 ^ 53 :: rat)"
    using b by (metis of_int_le_iff of_int_numeral of_int_power)
  show "2 powi e \<le> roundFloat x"
    unfolding roundFloat_pos [OF assms] lo using a' u by (intro mult_right_mono) auto
  show "roundFloat x \<le> 2 powi (e + 1)"
    unfolding roundFloat_pos [OF assms] hi using b' u by (intro mult_right_mono) auto
qed

lemma roundFloat_one: "roundFloat 1 = 1"
proof -
  have "roundFloat 1 = of_int (roundEven (1 / 2 powi (0 - 52))) * 2 powi (0 - 52)"
    by (rule roundFloat_pos) (simp_all add: floatScale_def)
  also have "(1::rat) / 2 powi (0 - 52) = of_int (2 ^ 52)"
    by (simp add: power_int_minus)
  finally show ?thesis by (simp only: roundEven_int) (simp add: power_int_minus)
qed

lemma float64_exact:
  assumes "0 \<le> i" and "i < 2 ^ 53"
  shows "float64 i = of_int i"
proof (cases "i = 0")
  case True
  then show ?thesis by (simp add: float64_def roundFloat_def)
next
  case False
  with assms have ipos: "1 \<le> i" by simp
  define x :: rat where "x = of_int i"
  have x1: "1 \<le> x" using ipos by (simp add: x_def)
  have xlt: "x < 2 ^ 53"
  proof -
    have "(of_int i :: rat) < of_int (2 ^ 53)" using assms(2) by (simp only: of_int_less_iff)
    then show ?thesis by (simp add: x_def)
  qed
  have small: "2 powi (- int floatScale) \<le> x"
  proof -
    have "(2::rat) powi (- int floatScale) \<le> 2 powi 0"
      by (intro power_int_increasing) auto
    with x1 show ?thesis by simp
  qed
  define e where "e = exponentOf x"
  note b = exponentOf_bounds [OF small, folded e_def]
  have "(2::rat) powi 0 < 2 powi (e + 1)" using x1 b(2) by simp
  then have e0: "0 \<le> e" using powi_less_cancel [of 0 "e + 1"] by simp
  have "(2::rat) powi e < 2 powi 53" using b(1) xlt by simp
  then have e52: "e \<le> 52" using powi_less_cancel [of e 53] by simp
  define d where "d = nat (52 - e)"
  have ed: "e - 52 = - int d" using e52 by (simp add: d_def)
  have u: "(2::rat) powi (e - 52) = 1 / 2 ^ d"
    unfolding ed by (simp add: power_int_minus field_simps)
  have q: "x / (1 / 2 ^ d) = of_int (i * 2 ^ d)"
    by (simp add: x_def)
  have "roundFloat x = of_int (roundEven (x / 2 powi (e - 52))) * 2 powi (e - 52)"
    using x1 unfolding roundFloat_def Let_def e_def by simp
  also have "\<dots> = of_int (i * 2 ^ d) * (1 / 2 ^ d)"
    by (simp only: u q roundEven_int)
  also have "\<dots> = x" by (simp add: x_def)
  finally show ?thesis by (simp add: float64_def x_def)
qed

lemma roundFloat_08: "roundFloat (4 / 5) = 7205759403792794 / 2 ^ 53"
proof -
  have r: "roundFloat (4 / 5) = of_int (roundEven ((4 / 5) / 2 powi (- 1 - 52))) * 2 powi (- 1 - 52)"
    by (rule roundFloat_pos) (simp_all add: floatScale_def power_int_minus)
  have y: "((4 :: rat) / 5) / 2 powi (- 1 - 52) = 36028797018963968 / 5"
    by (simp add: power_int_minus)
  have "7205759403792794 \<le> roundEven (36028797018963968 / 5)"
    by (rule roundEven_half_up) simp_all
  moreover have "roundEven (36028797018963968 / 5) < 7205759403792795"
    by (rule roundEven_half_down) simp
  ultimately have "roundEven (36028797018963968 / 5) = 7205759403792794" by simp
  then show ?thesis unfolding r y by (simp add: power_int_minus)
qed

lemma rate_half_range:
  assumes f: "0 < f" and t: "f < t" and h: "t \<le> 2 * f"
  shows "roundFloat (of_int f / of_int t)
           = of_int (roundEven (of_int f / of_int t * 2 ^ 53)) / 2 ^ 53"
proof -
  have tp: "(0::rat) < of_int t" using f t by simp
  have lo: "(2::rat) powi (- 1) \<le> of_int f / of_int t"
    using tp h by (simp add: power_int_minus pos_le_divide_eq field_simps)
  have hi: "of_int f / of_int t < (2::rat) powi (- 1 + 1)"
    using tp t by (simp add: pos_divide_less_eq)
  have sc: "- int floatScale \<le> - 1" by (simp add: floatScale_def)
  have "roundFloat (of_int f / of_int t)
          = of_int (roundEven (of_int f / of_int t / 2 powi (- 1 - 52))) * 2 powi (- 1 - 52)"
    by (rule roundFloat_pos [OF lo hi sc])
  then show ?thesis by (simp add: power_int_minus)
qed


lemma roundFloat_zero: "roundFloat 0 = 0"
  by (simp add: roundFloat_def)

lemma rate_ge_08:
  assumes f0: "0 \<le> f" and ft: "f \<le> t" and t0: "0 < t" and tb: "t < 2 ^ 53"
  shows "(roundFloat (4 / 5) \<le> fdiv (float64 f) (float64 t)) = (4 * t \<le> 5 * f)"
proof -
  have fb: "f < 2 ^ 53" using ft tb by simp
  have conv: "fdiv (float64 f) (float64 t) = roundFloat (of_int f / of_int t)"
    by (simp add: fdiv_def float64_exact [OF f0 fb] float64_exact [OF less_imp_le [OF t0] tb])
  have tp: "(0::rat) < of_int t" using t0 by simp
  show ?thesis
    unfolding conv
  proof (cases "f = 0")
    case True
    then show "(roundFloat (4 / 5) \<le> roundFloat (of_int f / of_int t)) = (4 * t \<le> 5 * f)"
      using t0 by (simp add: roundFloat_08 roundFloat_zero)
  next
    case False
    with f0 have fpos: "0 < f" by simp
    show "(roundFloat (4 / 5) \<le> roundFloat (of_int f / of_int t)) = (4 * t \<le> 5 * f)"
    proof (cases "f = t")
      case True
      then show ?thesis using t0 by (simp add: roundFloat_08 roundFloat_one)
    next
      case False
      with ft have flt: "f < t" by simp
      show ?thesis
      proof (cases "t \<le> 2 * f")
        case True
        let ?y = "(of_int f :: rat) / of_int t * 2 ^ 53"
        have rf: "roundFloat (of_int f / of_int t) = of_int (roundEven ?y) / 2 ^ 53"
          by (rule rate_half_range [OF fpos flt True])
        have cmp: "(roundFloat (4 / 5) \<le> roundFloat (of_int f / of_int t))
                     = (7205759403792794 \<le> roundEven ?y)"
        proof -
          have "((7205759403792794 :: rat) / 2 ^ 53 \<le> of_int (roundEven ?y) / 2 ^ 53)
                  = ((7205759403792794 :: rat) \<le> of_int (roundEven ?y))"
            by (simp add: divide_le_cancel)
          also have "\<dots> = (7205759403792794 \<le> roundEven ?y)"
            by (metis of_int_le_iff of_int_numeral)
          finally show ?thesis unfolding rf roundFloat_08 .
        qed
        have yval: "?y = of_int (f * 2 ^ 53) / of_int t" by simp
        show ?thesis
        proof (cases "4 * t \<le> 5 * f")
          case ge: True
          have "2 * t * 7205759403792794 - t \<le> 2 * (f * 2 ^ 53)" using ge t0 by simp
          then have "of_int (2 * t * 7205759403792794 - t) \<le> (of_int (2 * (f * 2 ^ 53)) :: rat)"
            by (simp only: of_int_le_iff)
          then have "(of_int 7205759403792794 - 1 / 2) * of_int t \<le> (of_int (f * 2 ^ 53) :: rat)"
            by (simp add: algebra_simps)
          then have "of_int 7205759403792794 - 1 / 2 \<le> ?y"
            unfolding yval using tp by (simp add: pos_le_divide_eq)
          then have "7205759403792794 \<le> roundEven ?y"
            by (rule roundEven_half_up) simp
          with ge show ?thesis by (simp add: cmp)
        next
          case lt: False
          then have "5 * f + 1 \<le> 4 * t" by simp
          then have "2 * (f * 2 ^ 53) < 2 * t * 7205759403792794 - t" using tb t0 by simp
          then have "(of_int (2 * (f * 2 ^ 53)) :: rat) < of_int (2 * t * 7205759403792794 - t)"
            by (simp only: of_int_less_iff)
          then have "(of_int (f * 2 ^ 53) :: rat) < (of_int 7205759403792794 - 1 / 2) * of_int t"
            by (simp add: algebra_simps)
          then have "?y < of_int 7205759403792794 - 1 / 2"
            unfolding yval using tp by (simp add: pos_divide_less_eq)
          then have "roundEven ?y < 7205759403792794"
            by (rule roundEven_half_down)
          with lt show ?thesis by (simp add: cmp)
        qed
      next
        case False
        then have half: "2 * f < t" by simp
        define x :: rat where "x = of_int f / of_int t"
        have xlt: "x < 1 / 2"
          unfolding x_def using tp half by (simp add: pos_divide_less_eq)
        have xlo: "2 powi (- 53) \<le> x"
        proof -
          have "t \<le> f * 2 ^ 53" using fpos tb by simp
          then have "(of_int t :: rat) \<le> of_int (f * 2 ^ 53)"
            by (simp only: of_int_le_iff)
          then have "(1 :: rat) / 2 ^ 53 \<le> of_int f / of_int t"
            using tp by (simp add: pos_le_divide_eq field_simps)
          then show ?thesis by (simp add: x_def power_int_minus field_simps)
        qed
        have small: "2 powi (- int floatScale) \<le> x"
        proof -
          have "(2::rat) powi (- int floatScale) \<le> 2 powi (- 53)"
            by (intro power_int_increasing) (auto simp: floatScale_def)
          with xlo show ?thesis by simp
        qed
        define e where "e = exponentOf x"
        note b = exponentOf_bounds [OF small, folded e_def]
        have "(2::rat) powi e < 2 powi (- 1)" using b(1) xlt by (simp add: power_int_minus)
        then have e2: "e + 1 \<le> - 1" using powi_less_cancel [of e "- 1"] by simp
        have "(2::rat) powi (- 53) < 2 powi (e + 1)" using xlo b(2) by simp
        then have esc: "- int floatScale \<le> e"
          using powi_less_cancel [of "- 53" "e + 1"] by (simp add: floatScale_def)
        have "roundFloat x \<le> 2 powi (e + 1)" by (rule roundFloat_bounds(2) [OF b esc])
        also have "\<dots> \<le> 2 powi (- 1)" using e2 by (intro power_int_increasing) auto
        finally have "roundFloat x \<le> 1 / 2" by (simp add: power_int_minus)
        then have "\<not> roundFloat (4 / 5) \<le> roundFloat x" by (simp add: roundFloat_08)
        moreover have "\<not> 4 * t \<le> 5 * f" using half fpos by simp
        ultimately show ?thesis by (simp add: x_def)
      qed
    qed
  qed
qed

lemma rate_ge_05:
  assumes f0: "0 \<le> f" and ft: "f \<le> t" and t0: "0 < t" and tb: "t < 2 ^ 53"
  shows "(1 / 2 \<le> fdiv (float64 f) (float64 t)) = (t \<le> 2 * f)"
proof -
  have fb: "f < 2 ^ 53" using ft tb by simp
  have conv: "fdiv (float64 f) (float64 t) = roundFloat (of_int f / of_int t)"
    by (simp add: fdiv_def float64_exact [OF f0 fb] float64_exact [OF less_imp_le [OF t0] tb])
  have tp: "(0::rat) < of_int t" using t0 by simp
  show ?thesis
    unfolding conv
  proof (cases "f = 0")
    case True
    then show "(1 / 2 \<le> roundFloat (of_int f / of_int t)) = (t \<le> 2 * f)"
      using t0 by (simp add: roundFloat_zero)
  next
    case False
    with f0 have fpos: "0 < f" by simp
    define x :: rat where "x = of_int f / of_int t"
    have xlo: "2 powi (- 53) \<le> x"
    proof -
      have "t \<le> f * 2 ^ 53" using fpos tb by simp
      then have "(of_int t :: rat) \<le> of_int (f * 2 ^ 53)"
        by (simp only: of_int_le_iff)
      then have "(1 :: rat) / 2 ^ 53 \<le> of_int f / of_int t"
        using tp by (simp add: pos_le_divide_eq field_simps)
      then show ?thesis by (simp add: x_def power_int_minus field_simps)
    qed
    have small: "2 powi (- int floatScale) \<le> x"
    proof -
      have "(2::rat) powi (- int floatScale) \<le> 2 powi (- 53)"
        by (intro power_int_increasing) (auto simp: floatScale_def)
      with xlo show ?thesis by simp
    qed
    define e where "e = exponentOf x"
    note b = exponentOf_bounds [OF small, folded e_def]
    have "(2::rat) powi (- 53) < 2 powi (e + 1)" using xlo b(2) by simp
    then have esc: "- int floatScale \<le> e"
      using powi_less_cancel [of "- 53" "e + 1"] by (simp add: floatScale_def)
    show "(1 / 2 \<le> roundFloat (of_int f / of_int t)) = (t \<le> 2 * f)"
    proof (cases "t \<le> 2 * f")
      case True
      then have "(of_int t :: rat) \<le> of_int (2 * f)" by (simp only: of_int_le_iff)
      then have "1 / 2 \<le> x" unfolding x_def using tp by (simp add: pos_le_divide_eq)
      then have "(2::rat) powi (- 1) < 2 powi (e + 1)" using b(2) by (simp add: power_int_minus)
      then have "- 1 \<le> e" using powi_less_cancel [of "- 1" "e + 1"] by simp
      then have "(2::rat) powi (- 1) \<le> 2 powi e" by (intro power_int_increasing) auto
      also have "\<dots> \<le> roundFloat x" by (rule roundFloat_bounds(1) [OF b esc])
      finally have "1 / 2 \<le> roundFloat x" by (simp add: power_int_minus)
      with True show ?thesis by (simp add: x_def)
    next
      case False
      then have half: "2 * f + 1 \<le> t" by simp
      then have "2 * f < t" by simp
      then have "(of_int (2 * f) :: rat) < of_int t" by (simp only: of_int_less_iff)
      then have xlt: "x < 1 / 2" unfolding x_def using tp by (simp add: pos_divide_less_eq)
      have "(2::rat) powi e < 2 powi (- 1)" using b(1) xlt by (simp add: power_int_minus)
      then have e2: "e \<le> - 2" using powi_less_cancel [of e "- 1"] by simp
      have "roundFloat x < 1 / 2"
      proof (cases "e = - 2")
        case True
        have r: "roundFloat x = of_int (roundEven (x / 2 powi (e - 52))) * 2 powi (e - 52)"
          by (rule roundFloat_pos [OF b esc])
        have "f * 2 ^ 54 \<le> t * (2 ^ 53 - 1)" using half tb by simp
        then have "(of_int (f * 2 ^ 54) :: rat) \<le> of_int (t * (2 ^ 53 - 1))"
          by (simp only: of_int_le_iff)
        then have "x * 2 ^ 54 \<le> of_int (2 ^ 53 - 1)"
          unfolding x_def using tp by (simp add: pos_divide_le_eq field_simps)
        then have "roundEven (x * 2 ^ 54) \<le> 2 ^ 53 - 1" by (rule roundEven_le)
        then have "(of_int (roundEven (x * 2 ^ 54)) :: rat) \<le> of_int (2 ^ 53 - 1)"
          by (simp only: of_int_le_iff)
        then have "(of_int (roundEven (x * 2 ^ 54)) :: rat) / 2 ^ 54 < 1 / 2" by simp
        then show ?thesis unfolding r True by (simp add: power_int_minus)
      next
        case False
        with e2 have "e + 1 \<le> - 2" by simp
        have "roundFloat x \<le> 2 powi (e + 1)" by (rule roundFloat_bounds(2) [OF b esc])
        also have "\<dots> \<le> 2 powi (- 2)" using \<open>e + 1 \<le> - 2\<close> by (intro power_int_increasing) auto
        finally show ?thesis by (simp add: power_int_minus)
      qed
      with False show ?thesis by (simp add: x_def)
    qed
  qed
qed

lemma roundFloat_half: "roundFloat (1 / 2) = 1 / 2"
proof -
  have "roundFloat (1 / 2) = of_int (roundEven ((1 / 2) / 2 powi (- 1 - 52))) * 2 powi (- 1 - 52)"
    by (rule roundFloat_pos) (simp_all add: floatScale_def power_int_minus)
  also have "((1 :: rat) / 2) / 2 powi (- 1 - 52) = of_int (2 ^ 52)"
    by (simp add: power_int_minus)
  finally show ?thesis by (simp only: roundEven_int) (simp add: power_int_minus)
qed


section \<open>Verified properties: risk analysis\<close>

lemma s5_key:
  "generateProvisioningLogKey s5_spec = ''/log/provision/gcp%2Beurope-north1%2Bf1-micro''"
  by (simp add: generateProvisioningLogKey_def QueryEscape_def escapeChar_def unreserved_def
        s5_spec_def)

lemma s5_get: "GetProvisioningLog s5_store s5_spec = (Inr (Some s5_log), s5_store)"
  by (simp add: GetProvisioningLog_def GetKv_def s5_store_def)

lemma s5_facts:
  "or_Level (OverallRisk (analyzeLog f s5_log s5_image)) = ''high''"
  "PrimaryRiskFactor (OverallRisk (analyzeLog f s5_log s5_image)) = ''spec''"
  "Recommendations (analyzeLog f s5_log s5_image) =
      [''Consider changing to a different VM specification'',
       ''Check if this spec is available and properly configured in the target region'',
       ''IMPORTANT: This exact spec+image combination has failure history - high caution advised'',
       ''HIGH RISK DEPLOYMENT - Consider testing in development environment first'',
       ''Ensure robust rollback plans and monitoring are in place'']"
  by (simp_all add: analyzeLog_def s5_log_def s5_image_def analyzeSpecRisk_def
        analyzeImageRisk_def determineOverallRisk_def generateRecommendations_def
        getRiskValue_def Let_def wrap64_small float64_exact fdiv_def roundFloat_one
        roundFloat_08)

text \<open>
  C1, as the spec states it, fails: with the S5 history the analysis of that spec and image
  does not name \<open>image\<close> as the primary risk factor, and no recommendation contains
  \<open>different image\<close>.
\<close>

theorem C1_s5_not_image_counterexample:
  "\<not> (let ra = fst (AnalyzeProvisioningRiskDetailed fmtWhole s5_store s5_spec s5_image)
      in or_Level (OverallRisk ra) = ''high''
         \<and> PrimaryRiskFactor (OverallRisk ra) = ''image''
         \<and> list_ex (\<lambda>r. strContains r ''different image'') (Recommendations ra))"
  by (simp add: AnalyzeProvisioningRiskDetailed_def s5_get s5_facts Let_def)

text \<open>
  C1 (amended): with the S5 history, the analysis of that spec and image has overall level
  \<open>high\<close> and primary risk factor \<open>spec\<close> (the single failure makes the failure rate 1.0,
  so the spec risk is high as well and the tie goes to the spec); a recommendation advises
  a different VM specification and none advises a different image.
\<close>

theorem C1_s5_verdict:
  "(let ra = fst (AnalyzeProvisioningRiskDetailed fmt1f s5_store s5_spec s5_image)
    in or_Level (OverallRisk ra) = ''high''
       \<and> PrimaryRiskFactor (OverallRisk ra) = ''spec''
       \<and> list_ex (\<lambda>r. strContains r ''different VM specification'') (Recommendations ra)
       \<and> \<not> list_ex (\<lambda>r. strContains r ''different image'') (Recommendations ra))"
  by (simp add: AnalyzeProvisioningRiskDetailed_def s5_get s5_facts Let_def)

lemma rate_tests:
  assumes f0: "0 \<le> FailureCount l" and s0: "0 \<le> SuccessCount l"
      and tb: "FailureCount l + SuccessCount l < 2 ^ 53"
      and tz: "FailureCount l + SuccessCount l \<noteq> 0"
  shows "wrap64 (FailureCount l + SuccessCount l) \<noteq> 0"
    and "(roundFloat (8 / 10)
            \<le> fdiv (float64 (FailureCount l)) (float64 (wrap64 (FailureCount l + SuccessCount l))))
         = (8 / 10 \<le> failureRateOf l)"
    and "(roundFloat (5 / 10)
            \<le> fdiv (float64 (FailureCount l)) (float64 (wrap64 (FailureCount l + SuccessCount l))))
         = (5 / 10 \<le> failureRateOf l)"
proof -
  let ?f = "FailureCount l" and ?t = "FailureCount l + SuccessCount l"
  have w: "wrap64 ?t = ?t" using f0 s0 tb by (intro wrap64_small) simp_all
  have ft: "?f \<le> ?t" using s0 by simp
  have t0: "0 < ?t" using f0 s0 tz by simp
  then have tp: "(0::rat) < of_int ?t" by (simp only: of_int_0_less_iff)
  show "wrap64 ?t \<noteq> 0" unfolding w by (rule tz)
  have e8: "(8 / 10 \<le> failureRateOf l) = (4 * ?t \<le> 5 * ?f)"
  proof -
    have "((8::rat) / 10 \<le> of_int ?f / of_int ?t) = ((4::rat) * of_int ?t \<le> 5 * of_int ?f)"
      using tp by (simp add: pos_le_divide_eq)
    also have "\<dots> = (of_int (4 * ?t) \<le> (of_int (5 * ?f) :: rat))" by simp
    also have "\<dots> = (4 * ?t \<le> 5 * ?f)" by (simp only: of_int_le_iff)
    finally show ?thesis by (simp only: failureRateOf_def)
  qed
  have e5: "(5 / 10 \<le> failureRateOf l) = (?t \<le> 2 * ?f)"
  proof -
    have "((5::rat) / 10 \<le> of_int ?f / of_int ?t) = ((of_int ?t :: rat) \<le> 2 * of_int ?f)"
      using tp by (simp add: pos_le_divide_eq)
    also have "\<dots> = (of_int ?t \<le> (of_int (2 * ?f) :: rat))" by simp
    also have "\<dots> = (?t \<le> 2 * ?f)" by (simp only: of_int_le_iff)
    finally show ?thesis by (simp only: failureRateOf_def)
  qed
  have c8: "roundFloat (8 / 10) = roundFloat (4 / 5)" by simp
  have c5: "roundFloat (5 / 10) = 1 / 2" by (simp add: roundFloat_half)
  show "(roundFloat (8 / 10) \<le> fdiv (float64 ?f) (float64 (wrap64 ?t))) = (8 / 10 \<le> failureRateOf l)"
    unfolding w e8 c8 by (rule rate_ge_08 [OF f0 ft t0 tb])
  show "(roundFloat (5 / 10) \<le> fdiv (float64 ?f) (float64 (wrap64 ?t))) = (5 / 10 \<le> failureRateOf l)"
    unfolding w e5 c5 by (rule rate_ge_05 [OF f0 ft t0 tb])
qed

lemma five_failed_total: "wrap64 (FailureCount five_failed_log + SuccessCount five_failed_log) = 5"
  by (simp add: five_failed_log_def wrap64_small)

text \<open>
  C2, as the spec states it, fails: a history with five failed images (fewer than ten) and
  a failure rate of 1.0 (at least 0.8) is rated \<open>medium\<close>, not \<open>high\<close>.
\<close>

theorem C2_rate_shadowed_counterexample:
  "int (length (FailureImages five_failed_log)) < 10
   \<and> failureRateOf five_failed_log \<ge> 8 / 10
   \<and> sr_Level (SpecRisk (analyzeLog fmtWhole five_failed_log ''img-a'')) = ''medium''"
proof -
  have "sr_Level (SpecRisk (analyzeLog fmtWhole five_failed_log ''img-a'')) = ''medium''"
    unfolding analyzeLog_def Let_def five_failed_total
    by (simp add: five_failed_log_def analyzeSpecRisk_def)
  then show ?thesis by (simp add: failureRateOf_def five_failed_log_def)
qed

text \<open>
  C2 (amended): for a log whose counters are not negative and add up to less than \<open>2 ^ 53\<close>
  (so that the 64-bit sum does not wrap and the \<^verbatim>\<open>float64\<close> tests of the rate are exact), the
  rules are tried in order. A log without recorded attempts is \<open>low\<close>. Otherwise the spec
  risk is \<open>high\<close> with at least 10 failed images; else \<open>medium\<close> with at least 5 failed
  images, or at least 3 failed and no succeeded image; else \<open>high\<close> with a failure rate
  failureCount / (failureCount + successCount) of at least 0.8; else \<open>medium\<close> with a
  failure rate of at least 0.5; else \<open>low\<close>. The image counts are the lengths of the stored
  image lists.
\<close>

theorem C2_spec_risk_cascade:
  assumes f0: "0 \<le> FailureCount l" and s0: "0 \<le> SuccessCount l"
      and tb: "FailureCount l + SuccessCount l < 2 ^ 53"
  shows "sr_Level (SpecRisk (analyzeLog fmt1f l img)) =
     (let failed = int (length (FailureImages l));
          succeeded = int (length (SuccessImages l))
      in if FailureCount l + SuccessCount l = 0 then ''low''
         else if failed \<ge> 10 then ''high''
         else if failed \<ge> 5 \<or> (failed \<ge> 3 \<and> succeeded = 0) then ''medium''
         else if failureRateOf l \<ge> 8 / 10 then ''high''
         else if failureRateOf l \<ge> 5 / 10 then ''medium''
         else ''low'')"
proof (cases "FailureCount l + SuccessCount l = 0")
  case True
  then show ?thesis
    by (simp add: analyzeLog_def lowRiskAnalysis_def wrap64_def)
next
  case False
  note r = rate_tests [OF f0 s0 tb False]
  show ?thesis
    unfolding analyzeLog_def analyzeSpecRisk_def Let_def
    using False r(1) by (simp only: r(2) r(3) if_False) (simp add: Let_def)
qed

text \<open>
  Witness for C2: the S5 history has one failure, no success and one failed image; its
  failure rate of 1.0 makes the spec risk \<open>high\<close>.
\<close>

theorem C2_spec_risk_cascade_witness:
  "0 \<le> FailureCount s5_log \<and> 0 \<le> SuccessCount s5_log
   \<and> FailureCount s5_log + SuccessCount s5_log < 2 ^ 53
   \<and> int (length (FailureImages s5_log)) < 3
   \<and> failureRateOf s5_log = 1
   \<and> sr_Level (SpecRisk (analyzeLog fmtWhole s5_log s5_image)) = ''high''"
proof -
  have f0: "0 \<le> FailureCount s5_log" and s0: "0 \<le> SuccessCount s5_log"
    and tb: "FailureCount s5_log + SuccessCount s5_log < 2 ^ 53"
    by (simp_all add: s5_log_def)
  have rate: "failureRateOf s5_log = 1" by (simp add: failureRateOf_def s5_log_def)
  have imgs: "int (length (FailureImages s5_log)) < 3" by (simp add: s5_log_def)
  from C2_spec_risk_cascade [OF f0 s0 tb, of fmtWhole s5_image]
  have "sr_Level (SpecRisk (analyzeLog fmtWhole s5_log s5_image)) = ''high''"
    unfolding rate Let_def by (simp add: s5_log_def)
  with f0 s0 tb rate imgs show ?thesis by simp
qed

lemma analyzeLog_zero:
  "wrap64 (FailureCount l + SuccessCount l) = 0 \<Longrightarrow>
   analyzeLog fmt1f l img =
     lowRiskAnalysis ''No provisioning attempts recorded for this spec''
       ''No attempts with this image on this spec''
       ''No provisioning attempts recorded''
       ''First deployment with this configuration, proceed with monitoring''"
  by (simp add: analyzeLog_def)

lemma analyzeLog_parts:
  assumes "wrap64 (FailureCount l + SuccessCount l) \<noteq> 0"
  shows "OverallRisk (analyzeLog fmt1f l img) =
           determineOverallRisk (SpecRisk (analyzeLog fmt1f l img)) (ImageRisk (analyzeLog fmt1f l img))"
    and "ImageRisk (analyzeLog fmt1f l img) =
           analyzeImageRisk (contains (FailureImages l) img) (contains (SuccessImages l) img)
             (\<not> contains (FailureImages l) img \<and> \<not> contains (SuccessImages l) img) img"
    and "SpecRisk (analyzeLog fmt1f l img) =
           analyzeSpecRisk fmt1f (int (length (FailureImages l))) (int (length (SuccessImages l)))
             (FailureCount l) (SuccessCount l)
             (fdiv (float64 (FailureCount l)) (float64 (wrap64 (FailureCount l + SuccessCount l))))"
  using assms by (simp_all add: analyzeLog_def Let_def)

lemma analyzeLog_new:
  "IsNewCombination (ImageRisk (analyzeLog fmt1f l img))
        = (if wrap64 (FailureCount l + SuccessCount l) = 0 then True
           else \<not> (contains (FailureImages l) img \<or> contains (SuccessImages l) img))"
  by (simp add: analyzeLog_def lowRiskAnalysis_def analyzeImageRisk_def Let_def)

lemma analyzeSpecRisk_levels:
  "sr_Level (analyzeSpecRisk fmt1f a b c d r) = ''low''
   \<or> sr_Level (analyzeSpecRisk fmt1f a b c d r) = ''medium''
   \<or> sr_Level (analyzeSpecRisk fmt1f a b c d r) = ''high''"
  by (simp add: analyzeSpecRisk_def Let_def)

lemma analyzeImageRisk_levels:
  "ir_Level (analyzeImageRisk f s n img) = ''low'' \<or> ir_Level (analyzeImageRisk f s n img) = ''high''"
  by (simp add: analyzeImageRisk_def Let_def)

lemma analyzed_levels:
  "contains [''low'', ''medium'', ''high''] (sr_Level (SpecRisk (analyzeLog fmt1f l img)))"
  "contains [''low'', ''medium'', ''high''] (ir_Level (ImageRisk (analyzeLog fmt1f l img)))"
proof -
  show "contains [''low'', ''medium'', ''high''] (sr_Level (SpecRisk (analyzeLog fmt1f l img)))"
  proof (cases "wrap64 (FailureCount l + SuccessCount l) = 0")
    case True
    then show ?thesis by (simp add: analyzeLog_zero lowRiskAnalysis_def)
  next
    case False
    show ?thesis
      unfolding analyzeLog_parts(3) [OF False]
      using analyzeSpecRisk_levels
              [of fmt1f "int (length (FailureImages l))" "int (length (SuccessImages l))"
                  "FailureCount l" "SuccessCount l"
                  "fdiv (float64 (FailureCount l)) (float64 (wrap64 (FailureCount l + SuccessCount l)))"]
      by auto
  qed
  show "contains [''low'', ''medium'', ''high''] (ir_Level (ImageRisk (analyzeLog fmt1f l img)))"
  proof (cases "wrap64 (FailureCount l + SuccessCount l) = 0")
    case True
    then show ?thesis by (simp add: analyzeLog_zero lowRiskAnalysis_def)
  next
    case False
    show ?thesis
      unfolding analyzeLog_parts(2) [OF False]
      using analyzeImageRisk_levels
              [of "contains (FailureImages l) img" "contains (SuccessImages l) img"
                  "\<not> contains (FailureImages l) img \<and> \<not> contains (SuccessImages l) img" img]
      by auto
  qed
qed

text \<open>The overall verdict for two verdicts whose levels are among low, medium and high.\<close>

lemma overall_table:
  assumes "contains [''low'', ''medium'', ''high''] (sr_Level specRisk)"
      and "contains [''low'', ''medium'', ''high''] (ir_Level imageRisk)"
  shows "or_Level (determineOverallRisk specRisk imageRisk) =
           (if sr_Level specRisk = ''high'' \<or> ir_Level imageRisk = ''high'' then ''high''
            else if sr_Level specRisk = ''medium'' \<or> ir_Level imageRisk = ''medium'' then ''medium''
            else ''low'')"
    and "PrimaryRiskFactor (determineOverallRisk specRisk imageRisk) =
           (if sr_Level specRisk = ''low'' \<and> ir_Level imageRisk = ''low'' then ''none''
            else if IsNewCombination imageRisk \<and> sr_Level specRisk \<noteq> ''low'' then ''combination''
            else if (ir_Level imageRisk = ''high'' \<and> sr_Level specRisk \<noteq> ''high'')
                    \<or> (ir_Level imageRisk = ''medium'' \<and> sr_Level specRisk = ''low'')
                 then ''image''
            else ''spec'')"
proof -
  from assms(1) have s: "sr_Level specRisk = ''low'' \<or> sr_Level specRisk = ''medium''
                         \<or> sr_Level specRisk = ''high''"
    by (simp split: if_splits)
  from assms(2) have i: "ir_Level imageRisk = ''low'' \<or> ir_Level imageRisk = ''medium''
                         \<or> ir_Level imageRisk = ''high''"
    by (simp split: if_splits)
  from s i show "or_Level (determineOverallRisk specRisk imageRisk) =
           (if sr_Level specRisk = ''high'' \<or> ir_Level imageRisk = ''high'' then ''high''
            else if sr_Level specRisk = ''medium'' \<or> ir_Level imageRisk = ''medium'' then ''medium''
            else ''low'')"
    by (elim disjE) (simp_all add: determineOverallRisk_def getRiskValue_def Let_def)
  from s i show "PrimaryRiskFactor (determineOverallRisk specRisk imageRisk) =
           (if sr_Level specRisk = ''low'' \<and> ir_Level imageRisk = ''low'' then ''none''
            else if IsNewCombination imageRisk \<and> sr_Level specRisk \<noteq> ''low'' then ''combination''
            else if (ir_Level imageRisk = ''high'' \<and> sr_Level specRisk \<noteq> ''high'')
                    \<or> (ir_Level imageRisk = ''medium'' \<and> sr_Level specRisk = ''low'')
                 then ''image''
            else ''spec'')"
    by (elim disjE) (simp_all add: determineOverallRisk_def getRiskValue_def Let_def)
qed

lemma overall_all_levels:
  "list_all (\<lambda>s. list_all (\<lambda>i.
      (let overall = determineOverallRisk (specRisk\<lparr>sr_Level := s\<rparr>) (imageRisk\<lparr>ir_Level := i\<rparr>)
       in or_Level overall =
            (if s = ''high'' \<or> i = ''high'' then ''high''
             else if s = ''medium'' \<or> i = ''medium'' then ''medium''
             else ''low'')
          \<and> PrimaryRiskFactor overall =
            (if s = ''low'' \<and> i = ''low'' then ''none''
             else if IsNewCombination imageRisk \<and> s \<noteq> ''low'' then ''combination''
             else if (i = ''high'' \<and> s \<noteq> ''high'') \<or> (i = ''medium'' \<and> s = ''low'') then ''image''
             else ''spec'')))
     [''low'', ''medium'', ''high'']) [''low'', ''medium'', ''high'']"
  by (simp add: determineOverallRisk_def getRiskValue_def Let_def)

lemma analyzed_overall:
  "or_Level (OverallRisk (analyzeLog fmt1f l img)) =
     (if sr_Level (SpecRisk (analyzeLog fmt1f l img)) = ''high''
         \<or> ir_Level (ImageRisk (analyzeLog fmt1f l img)) = ''high'' then ''high''
      else if sr_Level (SpecRisk (analyzeLog fmt1f l img)) = ''medium''
              \<or> ir_Level (ImageRisk (analyzeLog fmt1f l img)) = ''medium'' then ''medium''
      else ''low'')"
  "PrimaryRiskFactor (OverallRisk (analyzeLog fmt1f l img)) =
     (if sr_Level (SpecRisk (analyzeLog fmt1f l img)) = ''low''
         \<and> ir_Level (ImageRisk (analyzeLog fmt1f l img)) = ''low'' then ''none''
      else if IsNewCombination (ImageRisk (analyzeLog fmt1f l img))
              \<and> sr_Level (SpecRisk (analyzeLog fmt1f l img)) \<noteq> ''low'' then ''combination''
      else if (ir_Level (ImageRisk (analyzeLog fmt1f l img)) = ''high''
                 \<and> sr_Level (SpecRisk (analyzeLog fmt1f l img)) \<noteq> ''high'')
              \<or> (ir_Level (ImageRisk (analyzeLog fmt1f l img)) = ''medium''
                  \<and> sr_Level (SpecRisk (analyzeLog fmt1f l img)) = ''low'')
           then ''image''
      else ''spec'')"
proof -
  have both: "or_Level (OverallRisk (analyzeLog fmt1f l img)) =
     (if sr_Level (SpecRisk (analyzeLog fmt1f l img)) = ''high''
         \<or> ir_Level (ImageRisk (analyzeLog fmt1f l img)) = ''high'' then ''high''
      else if sr_Level (SpecRisk (analyzeLog fmt1f l img)) = ''medium''
              \<or> ir_Level (ImageRisk (analyzeLog fmt1f l img)) = ''medium'' then ''medium''
      else ''low'')
   \<and> PrimaryRiskFactor (OverallRisk (analyzeLog fmt1f l img)) =
     (if sr_Level (SpecRisk (analyzeLog fmt1f l img)) = ''low''
         \<and> ir_Level (ImageRisk (analyzeLog fmt1f l img)) = ''low'' then ''none''
      else if IsNewCombination (ImageRisk (analyzeLog fmt1f l img))
              \<and> sr_Level (SpecRisk (analyzeLog fmt1f l img)) \<noteq> ''low'' then ''combination''
      else if (ir_Level (ImageRisk (analyzeLog fmt1f l img)) = ''high''
                 \<and> sr_Level (SpecRisk (analyzeLog fmt1f l img)) \<noteq> ''high'')
              \<or> (ir_Level (ImageRisk (analyzeLog fmt1f l img)) = ''medium''
                  \<and> sr_Level (SpecRisk (analyzeLog fmt1f l img)) = ''low'')
           then ''image''
      else ''spec'')"
  proof (cases "wrap64 (FailureCount l + SuccessCount l) = 0")
    case True
    show ?thesis unfolding analyzeLog_zero [OF True] by (simp add: lowRiskAnalysis_def)
  next
    case False
    show ?thesis
      unfolding analyzeLog_parts(1) [OF False]
      using overall_table [OF analyzed_levels, of fmt1f l img fmt1f l img] by simp
  qed
  then show "or_Level (OverallRisk (analyzeLog fmt1f l img)) =
     (if sr_Level (SpecRisk (analyzeLog fmt1f l img)) = ''high''
         \<or> ir_Level (ImageRisk (analyzeLog fmt1f l img)) = ''high'' then ''high''
      else if sr_Level (SpecRisk (analyzeLog fmt1f l img)) = ''medium''
              \<or> ir_Level (ImageRisk (analyzeLog fmt1f l img)) = ''medium'' then ''medium''
      else ''low'')" by (rule conjunct1)
  from both show "PrimaryRiskFactor (OverallRisk (analyzeLog fmt1f l img)) =
     (if sr_Level (SpecRisk (analyzeLog fmt1f l img)) = ''low''
         \<and> ir_Level (ImageRisk (analyzeLog fmt1f l img)) = ''low'' then ''none''
      else if IsNewCombination (ImageRisk (analyzeLog fmt1f l img))
              \<and> sr_Level (SpecRisk (analyzeLog fmt1f l img)) \<noteq> ''low'' then ''combination''
      else if (ir_Level (ImageRisk (analyzeLog fmt1f l img)) = ''high''
                 \<and> sr_Level (SpecRisk (analyzeLog fmt1f l img)) \<noteq> ''high'')
              \<or> (ir_Level (ImageRisk (analyzeLog fmt1f l img)) = ''medium''
                  \<and> sr_Level (SpecRisk (analyzeLog fmt1f l img)) = ''low'')
           then ''image''
      else ''spec'')" by (rule conjunct2)
qed

text \<open>
  C3: the levels are ordered low < medium < high. For every pair of verdicts with levels
  among these three the overall level is the higher of the two: \<open>high\<close> when one of them is
  high, else \<open>medium\<close> when one of them is medium, else \<open>low\<close>. The primary risk factor is
  \<open>none\<close> when both levels are low, \<open>combination\<close> when the image has never been tried with
  the spec and the spec level is not low, \<open>image\<close> when the image level is strictly higher
  than the spec level, and \<open>spec\<close> otherwise, so also on a tie. The first part states this
  for all nine pairs of levels, whatever the other fields of the verdicts are; the second
  states it for the verdicts the analyzer computes from a stored log, whose levels are
  always among the three, and says when the image counts as never tried.
\<close>

theorem C3_overall_risk:
  "list_all (\<lambda>s. list_all (\<lambda>i.
      (let overall = determineOverallRisk (specRisk\<lparr>sr_Level := s\<rparr>) (imageRisk\<lparr>ir_Level := i\<rparr>)
       in or_Level overall =
            (if s = ''high'' \<or> i = ''high'' then ''high''
             else if s = ''medium'' \<or> i = ''medium'' then ''medium''
             else ''low'')
          \<and> PrimaryRiskFactor overall =
            (if s = ''low'' \<and> i = ''low'' then ''none''
             else if IsNewCombination imageRisk \<and> s \<noteq> ''low'' then ''combination''
             else if (i = ''high'' \<and> s \<noteq> ''high'') \<or> (i = ''medium'' \<and> s = ''low'') then ''image''
             else ''spec'')))
     [''low'', ''medium'', ''high'']) [''low'', ''medium'', ''high'']
   \<and> (let ra = analyzeLog fmt1f l img;
           s = sr_Level (SpecRisk ra);
           i = ir_Level (ImageRisk ra)
       in contains [''low'', ''medium'', ''high''] s
          \<and> contains [''low'', ''medium'', ''high''] i
          \<and> or_Level (OverallRisk ra) =
              (if s = ''high'' \<or> i = ''high'' then ''high''
               else if s = ''medium'' \<or> i = ''medium'' then ''medium''
               else ''low'')
          \<and> IsNewCombination (ImageRisk ra)
              = (if wrap64 (FailureCount l + SuccessCount l) = 0 then True
                 else \<not> (contains (FailureImages l) img \<or> contains (SuccessImages l) img))
          \<and> PrimaryRiskFactor (OverallRisk ra) =
              (if s = ''low'' \<and> i = ''low'' then ''none''
               else if IsNewCombination (ImageRisk ra) \<and> s \<noteq> ''low'' then ''combination''
               else if (i = ''high'' \<and> s \<noteq> ''high'') \<or> (i = ''medium'' \<and> s = ''low'') then ''image''
               else ''spec''))"
  unfolding Let_def
  using overall_all_levels [of specRisk imageRisk, unfolded Let_def]
        analyzed_levels [of fmt1f l img] analyzed_overall [of fmt1f l img]
        analyzeLog_new [of fmt1f l img]
  by (intro conjI) assumption+

section \<open>Verified properties: recording events\<close>

lemma GetProvisioningLog_up:
  "\<not> kv_down kv \<Longrightarrow>
   GetProvisioningLog kv specId =
     (Inr (case kv_data kv (generateProvisioningLogKey specId) of
             Some (Decoded l) \<Rightarrow> Some l | _ \<Rightarrow> None),
      afterRead kv (generateProvisioningLogKey specId))"
  by (auto simp: GetProvisioningLog_def GetKv_def Delete_def afterRead_def undecodable_def Let_def
           split: option.splits stored.splits)

lemma afterRead_decoded:
  "kv_data kv key = Some (Decoded l) \<Longrightarrow> afterRead kv key = kv"
  by (simp add: afterRead_def undecodable_def)

lemma afterRead_up: "kv_down (afterRead kv key) = kv_down kv"
  by (simp add: afterRead_def)

lemma afterRead_put:
  "(kv_data (afterRead kv key))(key \<mapsto> v) = (kv_data kv)(key \<mapsto> v)"
  by (simp add: afterRead_def)

lemma afterRead_put_store:
  "(afterRead kv key)\<lparr>kv_data := (kv_data (afterRead kv key))(key \<mapsto> v)\<rparr>
     = kv\<lparr>kv_data := (kv_data kv)(key \<mapsto> v)\<rparr>"
  by (simp add: afterRead_def)

lemma SaveProvisioningLog_up:
  "\<not> kv_down kv \<Longrightarrow>
   SaveProvisioningLog now kv l =
     (None, kv\<lparr>kv_data := (kv_data kv)(generateProvisioningLogKey (SpecId l)
                  \<mapsto> Decoded (l\<lparr>LastUpdated := now\<rparr>))\<rparr>)"
  by (simp add: SaveProvisioningLog_def Put_def Let_def)

lemma SpecId_updates [simp]:
  "SpecId (addContext event l) = SpecId l"
  "SpecId (recordSuccess event l) = SpecId l"
  "SpecId (recordFailure event l) = SpecId l"
  "SpecId (newProvisioningLog event specInfo) = ev_SpecId event"
  by (simp_all add: addContext_def recordSuccess_def recordFailure_def newProvisioningLog_def)

lemma contains_set: "contains xs x = (x \<in> set xs)"
  by (induction xs) auto

lemma enteredLog_eq:
  "(addContext event (if ev_IsSuccess event then recordSuccess event b else recordFailure event b))
      \<lparr>LastUpdated := now\<rparr> = enteredLog now event b"
  by (simp add: enteredLog_def addContext_def recordSuccess_def recordFailure_def contains_set Let_def)

lemma baseLog_key:
  assumes "baseLog GetSpec kv event = Some b"
  shows "(afterRead kv (generateProvisioningLogKey (ev_SpecId event)))
           \<lparr>kv_data := (kv_data (afterRead kv (generateProvisioningLogKey (ev_SpecId event))))
                          (generateProvisioningLogKey (SpecId b) \<mapsto> v)\<rparr>
         = kv\<lparr>kv_data := (kv_data kv)(generateProvisioningLogKey (SpecId b) \<mapsto> v)\<rparr>"
proof (cases "undecodable (kv_data kv (generateProvisioningLogKey (ev_SpecId event)))")
  case False
  then show ?thesis by (simp add: afterRead_def)
next
  case True
  with assms have "SpecId b = ev_SpecId event"
    by (auto simp: baseLog_def undecodable_def split: sum.splits)
  then show ?thesis by (simp add: afterRead_put_store)
qed

lemma RecordProvisioningEvent_eq:
  assumes up: "\<not> kv_down kv"
      and base: "baseLog GetSpec kv event = Some b"
  shows "RecordProvisioningEvent GetSpec now kv event =
     (None,
      if ev_IsSuccess event \<and> \<not> FailureCount b > 0
      then afterRead kv (generateProvisioningLogKey (ev_SpecId event))
      else kv\<lparr>kv_data := (kv_data kv)(generateProvisioningLogKey (SpecId b) \<mapsto>
             Decoded (enteredLog now event b))\<rparr>)"
proof -
  let ?key = "generateProvisioningLogKey (ev_SpecId event)"
  have up': "\<not> kv_down (afterRead kv ?key)" using up by (simp add: afterRead_up)
  have inner: "(case (case kv_data kv ?key of Some (Decoded l) \<Rightarrow> Some l | _ \<Rightarrow> None) of
                   None \<Rightarrow>
                     (case GetSpec (ev_SpecId event) of
                        Inl e \<Rightarrow> Inl (FailedToGetSpec e)
                      | Inr specInfo \<Rightarrow> Inr (newProvisioningLog event specInfo))
                 | Some l \<Rightarrow> Inr l) = Inr b"
    using base by (auto simp: baseLog_def split: option.splits stored.splits sum.splits)
  have e: "(addContext event (recordSuccess event b))\<lparr>LastUpdated := now\<rparr> = enteredLog now event b"
    if "ev_IsSuccess event"
    using enteredLog_eq [where event = event and b = b and now = now] that by simp
  have f: "(addContext event (recordFailure event b))\<lparr>LastUpdated := now\<rparr> = enteredLog now event b"
    if "\<not> ev_IsSuccess event"
    using enteredLog_eq [where event = event and b = b and now = now] that by simp
  show ?thesis
    unfolding RecordProvisioningEvent_def GetProvisioningLog_up [OF up]
    by (simp add: inner SaveProvisioningLog_up [OF up'] baseLog_key [OF base] e f)
qed

lemma RecordProvisioningEvent_none:
  assumes up: "\<not> kv_down kv"
      and base: "baseLog GetSpec kv event = None"
  shows "\<exists>err. RecordProvisioningEvent GetSpec now kv event =
           (Some err, afterRead kv (generateProvisioningLogKey (ev_SpecId event)))"
proof -
  let ?key = "generateProvisioningLogKey (ev_SpecId event)"
  from base obtain e where
    inner: "(case (case kv_data kv ?key of Some (Decoded l) \<Rightarrow> Some l | _ \<Rightarrow> None) of
                   None \<Rightarrow>
                     (case GetSpec (ev_SpecId event) of
                        Inl e \<Rightarrow> Inl (FailedToGetSpec e)
                      | Inr specInfo \<Rightarrow> Inr (newProvisioningLog event specInfo))
                 | Some l \<Rightarrow> Inr l) = Inl (FailedToGetSpec e)"
    by (auto simp: baseLog_def split: option.splits stored.splits sum.splits)
  show ?thesis
    unfolding RecordProvisioningEvent_def GetProvisioningLog_up [OF up]
    by (simp add: inner)
qed

lemma RecordProvisioningEvent_down:
  "kv_down kv \<Longrightarrow> \<exists>err. RecordProvisioningEvent GetSpec now kv event = (Some err, kv)"
  by (simp add: RecordProvisioningEvent_def GetProvisioningLog_def GetKv_def)

lemma RecordProvisioningEvent_store:
  "snd (RecordProvisioningEvent GetSpec now kv event) = storeAfterEvent GetSpec now kv event"
proof (cases "kv_down kv")
  case True
  from RecordProvisioningEvent_down [OF True, of GetSpec now event] True
  show ?thesis by (auto simp: storeAfterEvent_def)
next
  case up: False
  show ?thesis
  proof (cases "baseLog GetSpec kv event")
    case None
    from RecordProvisioningEvent_none [OF up None, of now] up None
    show ?thesis by (auto simp: storeAfterEvent_def)
  next
    case (Some b)
    show ?thesis
      unfolding RecordProvisioningEvent_eq [OF up Some] storeAfterEvent_def
      using up Some by (simp add: not_less)
  qed
qed

lemma enteredLog_failure:
  assumes "\<not> ev_IsSuccess event"
  shows "FailureCount (enteredLog now event b) = wrap64 (FailureCount b + 1)"
    and "FailureTimestamps (enteredLog now event b) = FailureTimestamps b @ [ev_Timestamp event]"
    and "FailureImages (enteredLog now event b) =
           (if ev_CspImageName event = [] \<or> ev_CspImageName event \<in> set (FailureImages b)
            then FailureImages b else FailureImages b @ [ev_CspImageName event])"
    and "FailureMessages (enteredLog now event b) =
           FailureMessages b @ (if ev_ErrorMessage event = [] then [] else [ev_ErrorMessage event])"
    and "SuccessCount (enteredLog now event b) = SuccessCount b"
    and "SuccessTimestamps (enteredLog now event b) = SuccessTimestamps b"
    and "SuccessImages (enteredLog now event b) = SuccessImages b"
    and "SpecId (enteredLog now event b) = SpecId b"
  using assms by (simp_all add: enteredLog_def Let_def)

lemma enteredLog_success:
  assumes "ev_IsSuccess event"
  shows "SuccessCount (enteredLog now event b) = wrap64 (SuccessCount b + 1)"
    and "SuccessTimestamps (enteredLog now event b) = SuccessTimestamps b @ [ev_Timestamp event]"
    and "SuccessImages (enteredLog now event b) =
           (if ev_CspImageName event = [] \<or> ev_CspImageName event \<in> set (SuccessImages b)
            then SuccessImages b else SuccessImages b @ [ev_CspImageName event])"
    and "FailureCount (enteredLog now event b) = FailureCount b"
    and "FailureTimestamps (enteredLog now event b) = FailureTimestamps b"
    and "FailureImages (enteredLog now event b) = FailureImages b"
    and "FailureMessages (enteredLog now event b) = FailureMessages b"
    and "SpecId (enteredLog now event b) = SpecId b"
  using assms by (simp_all add: enteredLog_def Let_def)

text \<open>
  C4 (amended): let the store be reachable and let the event apply to a log \<open>b\<close>: the
  decoded log stored under the key of the event's spec, or a fresh log when none is stored
  there and the spec is in the catalog. Recording succeeds. A failure event puts a log under
  the key of the spec id that \<open>b\<close> carries (the event's spec for every log this function
  created) and changes nothing else; in that log failureCount is one higher (in 64-bit
  arithmetic), failureTimestamps end with the event's timestamp, failureImages end with the
  event's image name unless that is empty or already listed, failureMessages end with the
  error message unless it is empty, and the success fields are those of \<open>b\<close>. A success
  event is stored in the same way (successCount one higher, timestamp appended, image
  appended unless empty or listed) exactly when \<open>b\<close> has failureCount > 0; otherwise no log
  is written and the store is as it was, except that a value under the spec's key that is
  not decodable JSON has been deleted by the read.
\<close>

theorem C4_record_event:
  assumes up: "\<not> kv_down kv"
      and base: "baseLog GetSpec kv event = Some b"
  shows "(case RecordProvisioningEvent GetSpec now kv event of
            (err, kv') \<Rightarrow>
              err = None
              \<and> (if \<not> ev_IsSuccess event then
                    (\<exists>l'. kv' = kv\<lparr>kv_data := (kv_data kv)(generateProvisioningLogKey (SpecId b)
                                                     \<mapsto> Decoded l')\<rparr>
                       \<and> FailureCount l' = wrap64 (FailureCount b + 1)
                       \<and> FailureTimestamps l' = FailureTimestamps b @ [ev_Timestamp event]
                       \<and> FailureImages l' =
                           (if ev_CspImageName event = [] \<or> ev_CspImageName event \<in> set (FailureImages b)
                            then FailureImages b else FailureImages b @ [ev_CspImageName event])
                       \<and> FailureMessages l' =
                           FailureMessages b
                           @ (if ev_ErrorMessage event = [] then [] else [ev_ErrorMessage event])
                       \<and> SuccessCount l' = SuccessCount b
                       \<and> SuccessTimestamps l' = SuccessTimestamps b
                       \<and> SuccessImages l' = SuccessImages b
                       \<and> SpecId l' = SpecId b)
                  else if FailureCount b > 0 then
                    (\<exists>l'. kv' = kv\<lparr>kv_data := (kv_data kv)(generateProvisioningLogKey (SpecId b)
                                                     \<mapsto> Decoded l')\<rparr>
                       \<and> SuccessCount l' = wrap64 (SuccessCount b + 1)
                       \<and> SuccessTimestamps l' = SuccessTimestamps b @ [ev_Timestamp event]
                       \<and> SuccessImages l' =
                           (if ev_CspImageName event = [] \<or> ev_CspImageName event \<in> set (SuccessImages b)
                            then SuccessImages b else SuccessImages b @ [ev_CspImageName event])
                       \<and> FailureCount l' = FailureCount b
                       \<and> FailureTimestamps l' = FailureTimestamps b
                       \<and> FailureImages l' = FailureImages b
                       \<and> FailureMessages l' = FailureMessages b
                       \<and> SpecId l' = SpecId b)
                  else kv' = afterRead kv (generateProvisioningLogKey (ev_SpecId event))))"
proof (cases "ev_IsSuccess event")
  case False
  show ?thesis
    unfolding RecordProvisioningEvent_eq [OF up base]
    using False enteredLog_failure [OF False, of now b]
    by (auto intro!: exI [of _ "enteredLog now event b"])
next
  case True
  show ?thesis
  proof (cases "FailureCount b > 0")
    case pos: True
    show ?thesis
      unfolding RecordProvisioningEvent_eq [OF up base]
      using True pos enteredLog_success [OF True, of now b]
      by (auto intro!: exI [of _ "enteredLog now event b"])
  next
    case nonpos: False
    show ?thesis
      unfolding RecordProvisioningEvent_eq [OF up base]
      using True nonpos by simp
  qed
qed

lemma s5_base: "baseLog noCatalog s5_store s5_failure_event = Some s5_log"
  by (simp add: baseLog_def s5_store_def s5_failure_event_def)

text \<open>Witness for C4: a second failure, of another image, recorded on the S5 history.\<close>

theorem C4_record_event_witness:
  "\<not> kv_down s5_store \<and> baseLog noCatalog s5_store s5_failure_event = Some s5_log
   \<and> \<not> ev_IsSuccess s5_failure_event
   \<and> (\<exists>kv' l'. RecordProvisioningEvent noCatalog 7 s5_store s5_failure_event = (None, kv')
         \<and> kv_data kv' (generateProvisioningLogKey s5_spec) = Some (Decoded l')
         \<and> FailureCount l' = 2
         \<and> FailureTimestamps l' = [1, 7]
         \<and> FailureImages l' = [''ubuntu22.04'', ''debian12'']
         \<and> FailureMessages l' = [''quota exceeded'', ''capacity''])"
proof -
  have up: "\<not> kv_down s5_store" by (simp add: s5_store_def)
  have ev: "\<not> ev_IsSuccess s5_failure_event" by (simp add: s5_failure_event_def)
  obtain err kv' where r: "RecordProvisioningEvent noCatalog 7 s5_store s5_failure_event = (err, kv')"
    by (cases "RecordProvisioningEvent noCatalog 7 s5_store s5_failure_event") auto
  from C4_record_event [OF up s5_base, of 7] ev r
  obtain l' where
    "err = None"
    "kv' = s5_store\<lparr>kv_data := (kv_data s5_store)(generateProvisioningLogKey (SpecId s5_log)
                                    \<mapsto> Decoded l')\<rparr>"
    "FailureCount l' = wrap64 (FailureCount s5_log + 1)"
    "FailureTimestamps l' = FailureTimestamps s5_log @ [ev_Timestamp s5_failure_event]"
    "FailureImages l' =
       (if ev_CspImageName s5_failure_event = []
           \<or> ev_CspImageName s5_failure_event \<in> set (FailureImages s5_log)
        then FailureImages s5_log else FailureImages s5_log @ [ev_CspImageName s5_failure_event])"
    "FailureMessages l' = FailureMessages s5_log
       @ (if ev_ErrorMessage s5_failure_event = [] then [] else [ev_ErrorMessage s5_failure_event])"
    by auto
  then have "RecordProvisioningEvent noCatalog 7 s5_store s5_failure_event = (None, kv')
         \<and> kv_data kv' (generateProvisioningLogKey s5_spec) = Some (Decoded l')
         \<and> FailureCount l' = 2
         \<and> FailureTimestamps l' = [1, 7]
         \<and> FailureImages l' = [''ubuntu22.04'', ''debian12'']
         \<and> FailureMessages l' = [''quota exceeded'', ''capacity'']"
    using r by (simp add: s5_log_def s5_failure_event_def s5_image_def wrap64_small)
  then show ?thesis using up s5_base ev by blast
qed

text \<open>
  C4, as the spec states it, fails twice. A failure event for a spec that has no log and is
  not in the catalog is not recorded: the call returns an error and failureCount is not
  incremented. A success event arriving while the key holds text that is not JSON leaves
  no log behind but does change the store: the read deletes the entry.
\<close>

theorem C4_unrecorded_failure_counterexample:
  "\<not> ev_IsSuccess s5_failure_event
   \<and> RecordProvisioningEvent noCatalog 7 empty_logstore s5_failure_event
       = (Some (FailedToGetSpec ''spec not found''), empty_logstore)
   \<and> ev_IsSuccess s5_success_event
   \<and> kv_data corrupted_store (generateProvisioningLogKey s5_spec) = Some InvalidJson
   \<and> RecordProvisioningEvent gcpCatalog 8 corrupted_store s5_success_event
       = (None, empty_logstore)"
  by (simp add: RecordProvisioningEvent_def GetProvisioningLog_def GetKv_def Delete_def
        empty_logstore_def corrupted_store_def s5_failure_event_def s5_success_event_def
        noCatalog_def gcpCatalog_def newProvisioningLog_def Let_def)

lemma firstMatchingError_find:
  "firstMatchingError errs (vm_Id vm) =
     map_option vce_Error (find (\<lambda>vmError. matchesVm vmError vm) errs)"
  by (induction errs) (simp_all add: matchesVm_def)

lemma failureMessageOf_text:
  "failureMessageOf mciInfo vm =
     (if matchingErrorText mciInfo vm = [] then ''VM creation failed with status: '' @ vm_Status vm
      else matchingErrorText mciInfo vm)"
  by (simp add: failureMessageOf_def matchingErrorText_def firstMatchingError_find Let_def
           split: option.splits)

lemma provisioningEventOf_eq:
  "provisioningEventOf now mciInfo vm =
     \<lparr>ev_SpecId = vm_SpecId vm, ev_CspImageName = vm_CspImageName vm,
      ev_IsSuccess = (vm_Status vm = ''Running''),
      ev_ErrorMessage =
        (if vm_Status vm = ''Running'' then []
         else if matchingErrorText mciInfo vm = []
              then ''VM creation failed with status: '' @ vm_Status vm
         else matchingErrorText mciInfo vm),
      ev_Timestamp = now, ev_VmName = vm_Id vm, ev_MciId = mci_Id mciInfo\<rparr>"
  by (simp add: provisioningEventOf_def failureMessageOf_text StatusRunning_def Let_def)

lemma recordEvents_foldl:
  "snd (recordEvents GetSpec now mciInfo vms (n, kv)) =
     foldl (\<lambda>kv vm. snd (RecordProvisioningEvent GetSpec now kv (provisioningEventOf now mciInfo vm))) kv vms"
  by (induction vms arbitrary: n kv) (auto split: prod.splits option.splits)

text \<open>
  C10: when provisioning history is recorded from a finished MCI, the VMs are taken in
  order and each one leaves the store as the recording of one event leaves it
  (\<open>storeAfterEvent\<close>). The event carries the VM's spec and image and is a success exactly
  when the VM's status is \<open>Running\<close>. For any other status it is a failure whose message is
  the text of the first creation-error entry that matches the VM (VM-object creation errors
  first) or, when there is no such entry or its text is empty, the generic text naming the
  status. The call itself never returns an error.
\<close>

theorem C10_events_from_mci:
  "RecordProvisioningEventsFromMci GetSpec now kv mciInfo =
     (None,
      foldl (\<lambda>kv vm.
               storeAfterEvent GetSpec now kv
                 \<lparr>ev_SpecId = vm_SpecId vm, ev_CspImageName = vm_CspImageName vm,
                  ev_IsSuccess = (vm_Status vm = ''Running''),
                  ev_ErrorMessage =
                    (if vm_Status vm = ''Running'' then []
                     else if matchingErrorText mciInfo vm = []
                          then ''VM creation failed with status: '' @ vm_Status vm
                     else matchingErrorText mciInfo vm),
                  ev_Timestamp = now, ev_VmName = vm_Id vm, ev_MciId = mci_Id mciInfo\<rparr>)
        kv (mci_Vm mciInfo))"
  by (simp add: RecordProvisioningEventsFromMci_def recordEvents_foldl RecordProvisioningEvent_store
        provisioningEventOf_eq)

section \<open>Verified properties: review\<close>

lemma GetProvisioningLog_store:
  "snd (GetProvisioningLog kv specId) =
     (if kv_down kv then kv else afterRead kv (generateProvisioningLogKey specId))"
  by (auto simp: GetProvisioningLog_def GetKv_def Delete_def afterRead_def undecodable_def Let_def
           split: option.splits stored.splits)

lemma AnalyzeProvisioningRisk_store:
  "snd (AnalyzeProvisioningRisk fmt1f kv specId img) = snd (GetProvisioningLog kv specId)"
  by (auto simp: AnalyzeProvisioningRisk_def AnalyzeProvisioningRiskDetailed_def
           split: prod.splits sum.splits option.splits)

lemma reviewVm_store:
  "snd (reviewVm env kv vmRequest) = kv
   \<or> snd (reviewVm env kv vmRequest) = snd (GetProvisioningLog kv (dreq_CommonSpec vmRequest))"
proof (cases "snd (reviewLookups env vmRequest)")
  case None
  then have "snd (reviewVm env kv vmRequest) = kv"
    by (auto simp: reviewVm_def split: prod.splits option.splits)
  then show ?thesis by simp
next
  case (Some specInfo)
  then have "snd (reviewVm env kv vmRequest)
      = snd (AnalyzeProvisioningRisk (env_fmt1f env) kv (dreq_CommonSpec vmRequest) (dreq_CommonImage vmRequest))"
    by (auto simp: reviewVm_def split: prod.splits option.splits)
  then show ?thesis by (simp add: AnalyzeProvisioningRisk_store)
qed

lemma onlyDropped_refl: "onlyDropped keys kv kv"
  by (simp add: onlyDropped_def)

lemma onlyDropped_read:
  "generateProvisioningLogKey specId \<in> keys \<Longrightarrow>
   onlyDropped keys kv (snd (GetProvisioningLog kv specId))"
  by (auto simp: GetProvisioningLog_store onlyDropped_def afterRead_def)

lemma onlyDropped_trans:
  "onlyDropped keys kv kv1 \<Longrightarrow> onlyDropped keys kv1 kv2 \<Longrightarrow> onlyDropped keys kv kv2"
  unfolding onlyDropped_def undecodable_def
  by (metis option.distinct(1))

lemma onlyDropped_reviewVm:
  "generateProvisioningLogKey (dreq_CommonSpec vmRequest) \<in> keys \<Longrightarrow>
   onlyDropped keys kv (snd (reviewVm env kv vmRequest))"
  using reviewVm_store [of env kv vmRequest]
  by (auto simp: onlyDropped_refl onlyDropped_read)

lemma onlyDropped_reviewVms:
  "set (map (\<lambda>vm. generateProvisioningLogKey (dreq_CommonSpec vm)) vms) \<subseteq> keys \<Longrightarrow>
   onlyDropped keys kv (snd (reviewVms env kv vms))"
proof (induction vms arbitrary: kv)
  case Nil
  then show ?case by (simp add: onlyDropped_refl)
next
  case (Cons vm vms)
  have k: "generateProvisioningLogKey (dreq_CommonSpec vm) \<in> keys" using Cons.prems by simp
  have rest: "set (map (\<lambda>vm. generateProvisioningLogKey (dreq_CommonSpec vm)) vms) \<subseteq> keys"
    using Cons.prems by simp
  have step: "snd (reviewVms env kv (vm # vms)) = snd (reviewVms env (snd (reviewVm env kv vm)) vms)"
    by (simp split: prod.splits)
  show ?case
    unfolding step
    using onlyDropped_trans [OF onlyDropped_reviewVm [OF k] Cons.IH [OF rest]] .
qed

lemma Review_store:
  "snd (ReviewMciDynamicReq env kv nsId req deployOption) = kv
   \<or> snd (ReviewMciDynamicReq env kv nsId req deployOption) = snd (reviewVms env kv (mreq_Vm req))"
  by (auto simp: ReviewMciDynamicReq_def Let_def split: option.splits sum.splits bool.splits prod.splits)

lemma reviewLookups_spec:
  "snd (reviewLookups env vmRequest) =
     (case env_GetSpec env (dreq_CommonSpec vmRequest) of Inl err \<Rightarrow> None | Inr specInfo \<Rightarrow> Some specInfo)"
  by (simp add: reviewLookups_def Let_def split_def split: sum.splits)

lemma reviewVm_store_eq:
  "snd (reviewVm env kv vmRequest) =
     (case env_GetSpec env (dreq_CommonSpec vmRequest) of
        Inl err \<Rightarrow> kv
      | Inr specInfo \<Rightarrow> snd (GetProvisioningLog kv (dreq_CommonSpec vmRequest)))"
proof (cases "env_GetSpec env (dreq_CommonSpec vmRequest)")
  case (Inl err)
  then have "snd (reviewLookups env vmRequest) = None" by (simp add: reviewLookups_spec)
  then have "snd (reviewVm env kv vmRequest) = kv"
    by (auto simp: reviewVm_def split: prod.splits option.splits)
  with Inl show ?thesis by simp
next
  case (Inr specInfo)
  then have "snd (reviewLookups env vmRequest) = Some specInfo" by (simp add: reviewLookups_spec)
  then have "snd (reviewVm env kv vmRequest)
      = snd (AnalyzeProvisioningRisk (env_fmt1f env) kv (dreq_CommonSpec vmRequest) (dreq_CommonImage vmRequest))"
    by (auto simp: reviewVm_def split: prod.splits option.splits)
  with Inr show ?thesis by (simp add: AnalyzeProvisioningRisk_store)
qed

lemma Review_store_eq:
  "env_CheckString env nsId = None \<Longrightarrow> env_CheckMci env nsId (mreq_Name req) = Inr False \<Longrightarrow>
   mreq_Vm req \<noteq> [] \<Longrightarrow>
   snd (ReviewMciDynamicReq env kv nsId req deployOption) = snd (reviewVms env kv (mreq_Vm req))"
  by (simp add: ReviewMciDynamicReq_def Let_def split: prod.splits)

text \<open>
  C9 (amended): after a review, the store is as before except that undecodable values
  (text that is not JSON, or JSON that does not decode into a log) under the log keys of
  the requested specs may have been deleted by the read; every other key, and every key
  holding a decodable or empty value, keeps its value, and nothing is written. When no
  requested spec has an undecodable log, the store is exactly the same.
\<close>

theorem C9_review_frame:
  "onlyDropped (requestedLogKeys req) kv (snd (ReviewMciDynamicReq env kv nsId req deployOption))
   \<and> (if list_ex (\<lambda>vm. undecodable (kv_data kv (generateProvisioningLogKey (dreq_CommonSpec vm))))
            (mreq_Vm req)
       then True
       else snd (ReviewMciDynamicReq env kv nsId req deployOption) = kv)"
proof -
  let ?kv' = "snd (ReviewMciDynamicReq env kv nsId req deployOption)"
  have frame: "onlyDropped (requestedLogKeys req) kv ?kv'"
    using Review_store [of env kv nsId req deployOption]
          onlyDropped_reviewVms [of "mreq_Vm req" "requestedLogKeys req" kv env]
    by (auto simp: onlyDropped_refl requestedLogKeys_def)
  have same: "?kv' = kv"
    if none: "\<not> list_ex (\<lambda>vm. undecodable (kv_data kv (generateProvisioningLogKey (dreq_CommonSpec vm))))
                 (mreq_Vm req)"
  proof -
    have "kv_data ?kv' k = kv_data kv k" for k
      using frame none
      by (auto simp: onlyDropped_def requestedLogKeys_def list_ex_iff)
    then have "kv_data ?kv' = kv_data kv" by (rule ext)
    moreover have "kv_down ?kv' = kv_down kv" using frame by (simp add: onlyDropped_def)
    ultimately show ?thesis by simp
  qed
  show ?thesis using frame same by simp
qed

lemma corrupted_review:
  "snd (ReviewMciDynamicReq openEnv corrupted_store ''default'' s5_request []) = empty_logstore"
proof -
  have "snd (ReviewMciDynamicReq openEnv corrupted_store ''default'' s5_request [])
      = snd (reviewVms openEnv corrupted_store (mreq_Vm s5_request))"
    by (rule Review_store_eq) (simp_all add: openEnv_def s5_request_def)
  also have "\<dots> = snd (reviewVm openEnv corrupted_store (hd (mreq_Vm s5_request)))"
    by (simp add: s5_request_def split_def)
  also have "\<dots> = snd (GetProvisioningLog corrupted_store s5_spec)"
    unfolding reviewVm_store_eq
    by (simp add: s5_request_def openEnv_def gcpCatalog_def)
  also have "\<dots> = empty_logstore"
    by (simp add: GetProvisioningLog_store corrupted_store_def afterRead_def undecodable_def
          empty_logstore_def)
  finally show ?thesis .
qed

text \<open>
  C9, as the spec states it, fails: reviewing a request for the S5 spec while its log key
  holds text that is not JSON deletes that entry.
\<close>

theorem C9_corrupted_log_counterexample:
  "kv_data corrupted_store (generateProvisioningLogKey s5_spec) = Some InvalidJson
   \<and> kv_data (snd (ReviewMciDynamicReq openEnv corrupted_store ''default'' s5_request []))
        (generateProvisioningLogKey s5_spec) = None"
  by (simp add: corrupted_review) (simp add: corrupted_store_def empty_logstore_def)

section \<open>Verified properties: Kubernetes version recommendation\<close>

lemma alibaba_ascii:
  "isASCII ''1.28''" "isASCII ''1.31.1-aliyun.1''" "isASCII ''1.30.7-aliyun.1''"
  "isASCII ''1.28.15-aliyun.1''" "isASCII ''1.28.15.1''" "isASCII ''empty''"
  by (simp_all add: isASCII_def)

lemma alibaba_filtered:
  "FilterDigitsAndDots ''1.28'' = ''1.28''"
  "FilterDigitsAndDots ''1.31.1-aliyun.1'' = ''1.31.1.1''"
  "FilterDigitsAndDots ''1.30.7-aliyun.1'' = ''1.30.7.1''"
  "FilterDigitsAndDots ''1.28.15-aliyun.1'' = ''1.28.15.1''"
  by (simp_all add: FilterDigitsAndDots_def isDigitOrDot_def)

lemma alibaba_requested:
  "recommendRequested sameBytes ''1.28'' alibabaVersions (''empty'', [])
     = (''1.28.15.1'', [''1.31.1-aliyun.1'', ''1.30.7-aliyun.1'', ''1.28.15-aliyun.1''])"
  by (simp add: alibabaVersions_def EqualFold_def alibaba_ascii alibaba_filtered HasPrefix_def
        lowerChar_def)

text \<open>
  C8: the claim is right and the code departs from it. For Alibaba Cloud, region
  \<^verbatim>\<open>common\<close>, the capability file offers 1.31.1-aliyun.1, 1.30.7-aliyun.1 and
  1.28.15-aliyun.1. For the requested version 1.28 exactly one of them has a filtered form
  that starts with the filtered request, 1.28.15-aliyun.1, and that is the version the claim
  asks for. The code returns 1.28.15.1, the filtered form of it, which is no version of the
  table.
\<close>

theorem C8_alibaba_filtered_version:
  "getK8sRecommendVersion sameBytes lexCompare ''empty'' (Inr alibabaVersions)
       ''alibaba'' ''common'' ''1.28'' = Inr ''1.28.15.1''
   \<and> \<not> contains (map ver_Id alibabaVersions) ''1.28.15.1''
   \<and> map ver_Id (filter (\<lambda>verDetail. HasPrefix (FilterDigitsAndDots (ver_Id verDetail))
                                            (FilterDigitsAndDots ''1.28'')) alibabaVersions)
       = [''1.28.15-aliyun.1'']"
proof -
  have "getK8sRecommendVersion sameBytes lexCompare ''empty'' (Inr alibabaVersions)
          ''alibaba'' ''common'' ''1.28'' = Inr ''1.28.15.1''"
    by (simp add: getK8sRecommendVersion_def alibaba_requested EqualFold_def alibaba_ascii
          lowerChar_def)
  moreover have "\<not> contains (map ver_Id alibabaVersions) ''1.28.15.1''"
    by (simp add: alibabaVersions_def)
  moreover have "map ver_Id (filter (\<lambda>verDetail. HasPrefix (FilterDigitsAndDots (ver_Id verDetail))
                                            (FilterDigitsAndDots ''1.28'')) alibabaVersions)
       = [''1.28.15-aliyun.1'']"
    by (simp add: alibabaVersions_def alibaba_filtered HasPrefix_def)
  ultimately show ?thesis by simp
qed

section \<open>Verified properties: reconciling the status of a VM\<close>

lemma pollVmStatus_world:
  "w_kv (snd (snd (pollVmStatus env w e conn cid))) = w_kv w
   \<and> w_csp (snd (snd (pollVmStatus env w e conn cid))) = w_csp w"
  by (simp add: pollVmStatus_def Let_def split: sum.splits)

lemma polled_world:
  "w_kv (snd (snd (polled env w temp))) = w_kv w \<and> w_csp (snd (snd (polled env w temp))) = w_csp w"
  by (simp add: polled_def Let_def pollVmStatus_world)

lemma GetVmCurrentPublicIp_cong:
  "w_kv w' = w_kv w \<Longrightarrow> w_csp w' = w_csp w \<Longrightarrow>
   GetVmCurrentPublicIp env w' nsId mcisId vmId = GetVmCurrentPublicIp env w nsId mcisId vmId"
  by (simp add: GetVmCurrentPublicIp_def Let_def split: option.split mcisobj.split)

lemma FetchVmStatus_reconcile:
  assumes obj: "GetVmObject (w_kv w) nsId mcisId vmId = Inr temp"
      and idok: "vm_CspVmId temp \<noteq> [] \<or> vm_TargetAction temp = ActionCreate
                 \<or> vm_TargetAction temp = ActionTerminate"
  shows "FetchVmStatus env w nsId mcisId vmId =
     reconcileStatus env (snd (snd (polled env w temp))) nsId mcisId (vm_CspVmId temp)
       (fst (snd (polled env w temp))) temp (fst (polled env w temp))
       (if contains validStatuses (fst (polled env w temp)) then fst (polled env w temp)
        else StatusUndefined)"
proof -
  obtain nativeStatus errorInfo1 w1 where p: "polled env w temp = (nativeStatus, errorInfo1, w1)"
    by (cases "polled env w temp") auto
  have kv1: "w_kv w1 = w_kv w" using polled_world [of env w temp] p by simp
  have obj1: "GetVmObject (w_kv w1) nsId mcisId vmId = Inr temp" using obj kv1 by simp
  have guard: "\<not> ((vm_TargetAction temp \<noteq> ActionCreate \<and> vm_TargetAction temp \<noteq> ActionTerminate)
                  \<and> vm_CspVmId temp = [])"
    using idok by auto
  show ?thesis
  proof (cases "vm_CspVmId temp = []")
    case True
    with idok have act: "vm_TargetAction temp = ActionCreate \<or> vm_TargetAction temp = ActionTerminate"
      by simp
    have pe: "polled env w temp = (StatusUndefined, fst (snd (polled env w temp)), w)"
      using True by (simp add: polled_def Let_def)
    from act True show ?thesis
      unfolding FetchVmStatus_def Let_def
      by (auto simp: polled_def Let_def obj)
  next
    case False
    from False p show ?thesis
      unfolding FetchVmStatus_def Let_def
      by (simp add: polled_def Let_def obj obj1)
  qed
qed


lemma applyStatus_fields:
  "applyStatus w nsId mcisId cspVmId temp info =
     ((info\<lparr>vs_PublicIp := vm_PublicIP temp, vs_SSHPort := vm_SSHPort temp\<rparr>, None),
      if cspVmId \<noteq> []
      then w\<lparr>w_kv := UpdateVmInfo (w_kv w) nsId mcisId
                 (temp\<lparr>vm_Status := vs_Status info, vm_TargetAction := vs_TargetAction info,
                        vm_TargetStatus := vs_TargetStatus info,
                        vm_SystemMessage := vs_SystemMessage info\<rparr>)\<rparr>
      else w)"
  by (simp add: applyStatus_def Let_def)

lemma reconcileStatus_reached:
  assumes "correctStatus (vm_TargetAction temp) (vm_Status temp) status0 = vm_TargetStatus temp"
  shows "reconcileStatus env w nsId mcisId cspVmId errorInfo temp nativeStatus status0 =
     (if vm_TargetStatus temp \<noteq> StatusTerminated then
        (case GetVmCurrentPublicIp env w nsId mcisId (vm_Id temp) of
           Inl err \<Rightarrow> ((errorInfo\<lparr>vs_SystemMessage := err\<rparr>, Some err), w)
         | Inr (publicIp, privateIp, sshPort) \<Rightarrow>
             applyStatus w nsId mcisId cspVmId
               (temp\<lparr>vm_PublicIP := publicIp, vm_SSHPort := sshPort\<rparr>)
               \<lparr>vs_Id = vm_Id temp, vs_Name = vm_Name temp, vs_CspVmId = vm_CspVmId temp,
                vs_Status = vm_TargetStatus temp, vs_TargetStatus = StatusComplete,
                vs_TargetAction = ActionComplete, vs_NativeStatus = nativeStatus,
                vs_MonAgentStatus = vm_MonAgentStatus temp,
                vs_SystemMessage = vm_TargetStatus temp @ ''=='' @ vm_TargetStatus temp,
                vs_CreatedTime = vm_CreatedTime temp, vs_PublicIp = [],
                vs_PrivateIp = vm_PrivateIP temp, vs_SSHPort = [],
                vs_Location = vm_Location temp\<rparr>)
      else
        applyStatus w nsId mcisId cspVmId temp
          \<lparr>vs_Id = vm_Id temp, vs_Name = vm_Name temp, vs_CspVmId = vm_CspVmId temp,
           vs_Status = StatusTerminated, vs_TargetStatus = StatusTerminated,
           vs_TargetAction = ActionTerminate, vs_NativeStatus = nativeStatus,
           vs_MonAgentStatus = vm_MonAgentStatus temp,
           vs_SystemMessage = ''terminated VM. No action is acceptable except deletion'',
           vs_CreatedTime = vm_CreatedTime temp, vs_PublicIp = [],
           vs_PrivateIp = vm_PrivateIP temp, vs_SSHPort = [],
           vs_Location = vm_Location temp\<rparr>)"
proof -
  have nt: "[] \<noteq> StatusTerminated" by (simp add: StatusTerminated_def)
  show ?thesis
    unfolding reconcileStatus_def Let_def
    using assms nt by (simp split: sum.splits prod.splits)
qed

text \<open>
  C7 (amended): when the status reconciled by \<open>FetchVmStatus\<close> equals the stored target status
  (and the VM has a CSP id or its target action is Create or Terminate, so that the call does
  not return early), then: for a target status other than Terminated the public IP and SSH port
  are re-read; if that read fails its error is returned and nothing is stored; otherwise the
  returned status is the target status, the target status and target action are both set to
  Complete, the returned IP and port are the re-read ones, and the VM object is stored with
  these values when it has a CSP id. For the target status Terminated the target is kept
  (Terminated / Terminate) and the IP is not re-read.
\<close>

theorem C7_reconciled_target:
  assumes obj: "GetVmObject (w_kv w) nsId mcisId vmId = Inr temp"
      and idok: "vm_CspVmId temp \<noteq> [] \<or> vm_TargetAction temp = ActionCreate
                 \<or> vm_TargetAction temp = ActionTerminate"
      and reached: "reconciledStatus env w temp = vm_TargetStatus temp"
  shows "(case FetchVmStatus env w nsId mcisId vmId of
            ((info, err), w') \<Rightarrow>
              if vm_TargetStatus temp = StatusTerminated then
                err = None \<and> vs_Status info = StatusTerminated
                \<and> vs_TargetStatus info = StatusTerminated
                \<and> vs_TargetAction info = ActionTerminate
                \<and> vs_PublicIp info = vm_PublicIP temp \<and> vs_SSHPort info = vm_SSHPort temp
              else
                (case GetVmCurrentPublicIp env w nsId mcisId (vm_Id temp) of
                   Inl e \<Rightarrow> err = Some e \<and> w_kv w' = w_kv w
                 | Inr (publicIp, privateIp, sshPort) \<Rightarrow>
                     err = None \<and> vs_Status info = vm_TargetStatus temp
                     \<and> vs_TargetStatus info = StatusComplete
                     \<and> vs_TargetAction info = ActionComplete
                     \<and> vs_PublicIp info = publicIp \<and> vs_SSHPort info = sshPort
                     \<and> w_kv w' =
                         (if vm_CspVmId temp \<noteq> []
                          then UpdateVmInfo (w_kv w) nsId mcisId
                                 (temp\<lparr>vm_PublicIP := publicIp, vm_SSHPort := sshPort,
                                        vm_Status := vm_TargetStatus temp,
                                        vm_TargetAction := ActionComplete,
                                        vm_TargetStatus := StatusComplete,
                                        vm_SystemMessage :=
                                          vm_TargetStatus temp @ ''=='' @ vm_TargetStatus temp\<rparr>)
                          else w_kv w)))"
proof -
  let ?w1 = "snd (snd (polled env w temp))"
  have kv: "w_kv ?w1 = w_kv w" and csp: "w_csp ?w1 = w_csp w"
    using polled_world [of env w temp] by simp_all
  have ip: "GetVmCurrentPublicIp env ?w1 nsId mcisId (vm_Id temp)
            = GetVmCurrentPublicIp env w nsId mcisId (vm_Id temp)"
    by (rule GetVmCurrentPublicIp_cong [OF kv csp])
  have cs: "correctStatus (vm_TargetAction temp) (vm_Status temp)
              (if contains validStatuses (fst (polled env w temp)) then fst (polled env w temp)
               else StatusUndefined) = vm_TargetStatus temp"
    using reached by (simp add: reconciledStatus_def Let_def)
  show ?thesis
    unfolding FetchVmStatus_reconcile [OF obj idok] reconcileStatus_reached [OF cs] ip
      applyStatus_fields
    by (simp add: kv split: sum.splits prod.splits)
qed

lemmas status_defs =
  StatusFailed_def StatusSuspended_def StatusRunning_def StatusTerminated_def StatusCreating_def
  StatusSuspending_def StatusResuming_def StatusRebooting_def StatusTerminating_def
  StatusUndefined_def StatusComplete_def
  ActionCreate_def ActionTerminate_def ActionResume_def ActionReboot_def ActionRefine_def
  ActionComplete_def

lemma creating_obj:
  "GetVmObject (w_kv creatingWorld) ''demo'' ''m1'' ''v1''
     = Inr (demoVm ''v1'' ''aws-v1'' ''Creating'' ''Running'' ''Create'')"
  by (simp add: GetVmObject_def GenMcisKey_def kvGet_def creatingWorld_def)

lemma creating_polled:
  "fst (polled demoEnv creatingWorld (demoVm ''v1'' ''aws-v1'' ''Creating'' ''Running'' ''Create''))
     = ''Running''"
  by (simp add: polled_def pollVmStatus_def demoEnv_def creatingWorld_def demoVm_def Let_def
        status_defs)

lemma creating_reached:
  "reconciledStatus demoEnv creatingWorld (demoVm ''v1'' ''aws-v1'' ''Creating'' ''Running'' ''Create'')
     = vm_TargetStatus (demoVm ''v1'' ''aws-v1'' ''Creating'' ''Running'' ''Create'')"
  unfolding reconciledStatus_def Let_def creating_polled
  by (simp add: correctStatus_def validStatuses_def demoVm_def status_defs)

lemma creating_ip:
  "GetVmCurrentPublicIp demoEnv creatingWorld ''demo'' ''m1'' ''v1''
     = Inr (''3.38.1.10'', ''192.168.0.4'', ''22'')"
  by (simp add: GetVmCurrentPublicIp_def GenMcisKey_def kvGet_def creatingWorld_def demoVm_def
        demoEnv_def Let_def)

theorem C7_reconciled_target_witness:
  "GetVmObject (w_kv creatingWorld) ''demo'' ''m1'' ''v1''
     = Inr (demoVm ''v1'' ''aws-v1'' ''Creating'' ''Running'' ''Create'')
   \<and> reconciledStatus demoEnv creatingWorld (demoVm ''v1'' ''aws-v1'' ''Creating'' ''Running'' ''Create'')
       = ''Running''
   \<and> (case FetchVmStatus demoEnv creatingWorld ''demo'' ''m1'' ''v1'' of
         ((info, err), w') \<Rightarrow>
           err = None \<and> vs_Status info = ''Running'' \<and> vs_TargetStatus info = ''Complete''
           \<and> vs_TargetAction info = ''Complete'' \<and> vs_PublicIp info = ''3.38.1.10''
           \<and> vs_SSHPort info = ''22'')"
proof -
  have idok: "vm_CspVmId (demoVm ''v1'' ''aws-v1'' ''Creating'' ''Running'' ''Create'') \<noteq> []
        \<or> vm_TargetAction (demoVm ''v1'' ''aws-v1'' ''Creating'' ''Running'' ''Create'') = ActionCreate
        \<or> vm_TargetAction (demoVm ''v1'' ''aws-v1'' ''Creating'' ''Running'' ''Create'') = ActionTerminate"
    by (simp add: demoVm_def)
  have tid: "vm_Id (demoVm ''v1'' ''aws-v1'' ''Creating'' ''Running'' ''Create'') = ''v1''"
    and tts: "vm_TargetStatus (demoVm ''v1'' ''aws-v1'' ''Creating'' ''Running'' ''Create'') = ''Running''"
    by (simp_all add: demoVm_def)
  from C7_reconciled_target [OF creating_obj idok creating_reached]
  have "(case FetchVmStatus demoEnv creatingWorld ''demo'' ''m1'' ''v1'' of
         ((info, err), w') \<Rightarrow>
           err = None \<and> vs_Status info = ''Running'' \<and> vs_TargetStatus info = ''Complete''
           \<and> vs_TargetAction info = ''Complete'' \<and> vs_PublicIp info = ''3.38.1.10''
           \<and> vs_SSHPort info = ''22'')"
    unfolding tid tts creating_ip
    by (simp add: status_defs split: prod.splits)
  with creating_obj creating_reached tts show ?thesis by simp
qed

lemma terminated_obj:
  "GetVmObject (w_kv terminatedWorld) ''demo'' ''m1'' ''v1''
     = Inr (demoVm ''v1'' ''aws-v1'' ''Terminated'' ''Terminated'' ''Terminate'')"
  by (simp add: GetVmObject_def GenMcisKey_def kvGet_def terminatedWorld_def)

lemma terminated_polled:
  "fst (polled demoEnv terminatedWorld (demoVm ''v1'' ''aws-v1'' ''Terminated'' ''Terminated'' ''Terminate''))
     = ''Undefined''"
  by (simp add: polled_def demoVm_def Let_def status_defs)

lemma terminated_reached:
  "reconciledStatus demoEnv terminatedWorld (demoVm ''v1'' ''aws-v1'' ''Terminated'' ''Terminated'' ''Terminate'')
     = ''Terminated''"
  unfolding reconciledStatus_def Let_def terminated_polled
  by (simp add: correctStatus_def validStatuses_def demoVm_def status_defs)

text \<open>
  C7 as stated fails for a terminated VM: the reconciled status equals the target status
  Terminated, yet the target status and action stay Terminated and Terminate instead of
  becoming Complete.
\<close>

theorem C7_terminated_counterexample:
  "reconciledStatus demoEnv terminatedWorld (demoVm ''v1'' ''aws-v1'' ''Terminated'' ''Terminated'' ''Terminate'')
     = vm_TargetStatus (demoVm ''v1'' ''aws-v1'' ''Terminated'' ''Terminated'' ''Terminate'')
   \<and> vs_TargetStatus (fst (fst (FetchVmStatus demoEnv terminatedWorld ''demo'' ''m1'' ''v1''))) = ''Terminated''
   \<and> vs_TargetAction (fst (fst (FetchVmStatus demoEnv terminatedWorld ''demo'' ''m1'' ''v1''))) = ''Terminate''
   \<and> StatusComplete = ''Complete'' \<and> ActionComplete = ''Complete''"
proof -
  have idok: "vm_CspVmId (demoVm ''v1'' ''aws-v1'' ''Terminated'' ''Terminated'' ''Terminate'') \<noteq> []
        \<or> vm_TargetAction (demoVm ''v1'' ''aws-v1'' ''Terminated'' ''Terminated'' ''Terminate'') = ActionCreate
        \<or> vm_TargetAction (demoVm ''v1'' ''aws-v1'' ''Terminated'' ''Terminated'' ''Terminate'') = ActionTerminate"
    by (simp add: demoVm_def)
  have tts: "vm_TargetStatus (demoVm ''v1'' ''aws-v1'' ''Terminated'' ''Terminated'' ''Terminate'') = ''Terminated''"
    by (simp add: demoVm_def)
  have cs: "correctStatus (vm_TargetAction (demoVm ''v1'' ''aws-v1'' ''Terminated'' ''Terminated'' ''Terminate''))
              (vm_Status (demoVm ''v1'' ''aws-v1'' ''Terminated'' ''Terminated'' ''Terminate''))
              (if contains validStatuses (fst (polled demoEnv terminatedWorld
                    (demoVm ''v1'' ''aws-v1'' ''Terminated'' ''Terminated'' ''Terminate'')))
               then fst (polled demoEnv terminatedWorld
                    (demoVm ''v1'' ''aws-v1'' ''Terminated'' ''Terminated'' ''Terminate''))
               else StatusUndefined)
            = vm_TargetStatus (demoVm ''v1'' ''aws-v1'' ''Terminated'' ''Terminated'' ''Terminate'')"
    using terminated_reached tts by (simp add: reconciledStatus_def Let_def)
  have "vs_TargetStatus (fst (fst (FetchVmStatus demoEnv terminatedWorld ''demo'' ''m1'' ''v1''))) = ''Terminated''
      \<and> vs_TargetAction (fst (fst (FetchVmStatus demoEnv terminatedWorld ''demo'' ''m1'' ''v1''))) = ''Terminate''"
    unfolding FetchVmStatus_reconcile [OF terminated_obj idok] reconcileStatus_reached [OF cs]
      applyStatus_fields tts
    by (simp add: status_defs)
  with terminated_reached tts show ?thesis by (simp add: status_defs)
qed

section \<open>Verified properties: MCIS status\<close>

lemma statusFlagIndex_less: "statusFlagIndex s < 10"
  by (simp add: statusFlagIndex_def)

lemma countStatus_fold:
  "length acc = 10 \<Longrightarrow>
   length (foldl (\<lambda>statusFlag status.
              statusFlag[statusFlagIndex status := statusFlag ! statusFlagIndex status + 1]) acc xs) = 10
   \<and> (\<forall>i<10. foldl (\<lambda>statusFlag status.
              statusFlag[statusFlagIndex status := statusFlag ! statusFlagIndex status + 1]) acc xs ! i
         = acc ! i + classCount xs i)"
proof (induction xs arbitrary: acc)
  case Nil
  then show ?case by (simp add: classCount_def)
next
  case (Cons x xs)
  let ?acc' = "acc[statusFlagIndex x := acc ! statusFlagIndex x + 1]"
  have len: "length ?acc' = 10" using Cons.prems by simp
  have k: "statusFlagIndex x < length acc" using Cons.prems statusFlagIndex_less by simp
  from Cons.IH [OF len] k show ?case
    by (auto simp: classCount_def nth_list_update)
qed

lemma countStatus_length: "length (countStatus xs) = 10"
  unfolding countStatus_def using countStatus_fold [of "[0, 0, 0, 0, 0, 0, 0, 0, 0, 0]" xs] by simp

lemma nth_zeros: "i < 10 \<Longrightarrow> [0, 0, 0, 0, 0, 0, 0, 0, 0, 0::int] ! i = 0"
proof -
  assume "i < 10"
  then have "i \<in> {0, 1, 2, 3, 4, 5, 6, 7, 8, 9}" by auto
  then show ?thesis by auto
qed

lemma countStatus_nth: "i < 10 \<Longrightarrow> countStatus xs ! i = classCount xs i"
  unfolding countStatus_def
  using countStatus_fold [of "[0, 0, 0, 0, 0, 0, 0, 0, 0, 0]" xs] nth_zeros by simp

lemma classCount_mset: "mset xs = mset ys \<Longrightarrow> classCount xs i = classCount ys i"
proof -
  assume "mset xs = mset ys"
  then have "mset (filter (\<lambda>s. statusFlagIndex s = i) xs) = mset (filter (\<lambda>s. statusFlagIndex s = i) ys)"
    by simp
  then have "length (filter (\<lambda>s. statusFlagIndex s = i) xs) = length (filter (\<lambda>s. statusFlagIndex s = i) ys)"
    by (rule mset_eq_length)
  then show ?thesis by (simp add: classCount_def)
qed

lemma countStatus_mset:
  assumes "mset xs = mset ys"
  shows "countStatus xs = countStatus ys"
proof (rule nth_equalityI)
  show "length (countStatus xs) = length (countStatus ys)" by (simp add: countStatus_length)
next
  fix i assume "i < length (countStatus xs)"
  then have i: "i < 10" by (simp add: countStatus_length)
  show "countStatus xs ! i = countStatus ys ! i"
    unfolding countStatus_nth [OF i] by (rule classCount_mset [OF assms])
qed

lemma mcisStatusOf_mset: "mset xs = mset ys \<Longrightarrow> mcisStatusOf xs = mcisStatusOf ys"
proof -
  assume eq: "mset xs = mset ys"
  then have "length xs = length ys" by (rule mset_eq_length)
  then show ?thesis unfolding mcisStatusOf_def countStatus_mset [OF eq] by simp
qed



lemma classCount_le: "classCount xs i \<le> int (length xs)"
  by (simp add: classCount_def)



















section \<open>Verified properties: deleting an MCIS\<close>







































end
